theory Spec2Isabelle
  imports Main "HOL-Library.Word"
begin

unbundle bit_operations_syntax

section \<open>The Arduino environment the sketches run in\<close>

text \<open>
  The repository holds two Arduino sketches for a DRV8434S stepper driver: one steps the
  motor through the driver's SPI registers (called the SPI sketch below, suffix
  \<open>_spi\<close>), the other pulses the STEP and DIR pins (the STEP/DIR sketch, suffix
  \<open>_stepdir\<close>). Both declare globals of the same names, so the two models share one
  record of control variables and differ in the type of \<open>motorDirection\<close>.

  The Arduino core (\<open>String\<close>, \<open>Serial\<close>, \<open>micros\<close>, \<open>digitalWrite\<close>) and the vendor
  class \<open>DRV8434S\<close> are libraries outside the repository. What the sketches send to them
  is recorded in two logs (serial output, hardware calls); what the sketches read from
  them (a serial line, the clock, the fault register, the readiness of the serial port)
  is an input of the model.
\<close>

subsection \<open>Characters and the \<open>String\<close> methods used\<close>

definition isspace :: "char \<Rightarrow> bool" where
  "isspace c = (c = CHR '' '' \<or> (9 \<le> (of_char c :: nat) \<and> (of_char c :: nat) \<le> 13))"

definition isupper :: "char \<Rightarrow> bool" where
  "isupper c = (65 \<le> (of_char c :: nat) \<and> (of_char c :: nat) \<le> 90)"

definition isdigit :: "char \<Rightarrow> bool" where
  "isdigit c = (48 \<le> (of_char c :: nat) \<and> (of_char c :: nat) \<le> 57)"

definition tolower :: "char \<Rightarrow> char" where
  "tolower c = (if isupper c then char_of ((of_char c :: nat) + 32) else c)"

text \<open>\<open>String::trim()\<close>: drops the white space at both ends.\<close>

definition trim :: "string \<Rightarrow> string" where
  "trim s = rev (dropWhile isspace (rev (dropWhile isspace s)))"

text \<open>
  A \<open>String\<close> keeps its length and may hold NUL bytes (\<open>readStringUntil\<close> appends
  every byte it reads, a zero byte too). The methods that hand the buffer to the C
  library read it as a C string, up to the first NUL byte: this is \<open>c_str\<close>.
\<close>

definition c_str :: "string \<Rightarrow> string" where
  "c_str s = takeWhile (\<lambda>c. c \<noteq> CHR 0x00) s"

text \<open>
  \<open>cmd == "word"\<close> is \<open>String::equals(const char *)\<close>, which is \<open>strcmp\<close> on the two
  buffers: the line matches the word when it is the word up to its first NUL byte.
\<close>

definition equals :: "string \<Rightarrow> string \<Rightarrow> bool" where
  "equals s cstr = (c_str s = c_str cstr)"

text \<open>
  \<open>String::toLowerCase()\<close> walks the buffer up to the first NUL byte; what follows it
  is left as it is.
\<close>

definition toLowerCase :: "string \<Rightarrow> string" where
  "toLowerCase s = map tolower (c_str s) @ dropWhile (\<lambda>c. c \<noteq> CHR 0x00) s"

text \<open>
  \<open>String::startsWith(prefix)\<close> compares the first bytes with \<open>strncmp\<close> over the
  length of the prefix; for a prefix without a NUL byte, as \<open>speed \<close> is, that is
  equality of the first bytes.
\<close>

definition startsWith :: "string \<Rightarrow> string \<Rightarrow> bool" where
  "startsWith s pre = (take (length pre) s = pre)"

text \<open>
  \<open>String::substring(from)\<close>: the characters from index \<open>from\<close> on. The core builds
  the result by assigning the pointer \<open>buffer + from\<close>, so it ends at the first NUL
  byte.
\<close>

definition substring :: "string \<Rightarrow> nat \<Rightarrow> string" where
  "substring s from = c_str (drop from s)"

text \<open>
  \<open>String::toInt()\<close> is C's \<open>atol\<close> on the buffer: leading white space, an optional
  sign, then decimal digits up to the first other character; no digit gives 0.
  \<open>atol\<close> below is the mathematical value read.
\<close>

fun atol_digits :: "int \<Rightarrow> string \<Rightarrow> int" where
  "atol_digits acc [] = acc"
| "atol_digits acc (c # cs) =
     (if isdigit c then atol_digits (acc * 10 + (int (of_char c) - 48)) cs else acc)"

definition atol :: "string \<Rightarrow> int" where
  "atol s =
     (case dropWhile isspace s of
        [] \<Rightarrow> 0
      | c # cs \<Rightarrow>
          if c = CHR ''-'' then - atol_digits 0 cs
          else if c = CHR ''+'' then atol_digits 0 cs
          else atol_digits 0 (c # cs))"

subsection \<open>The platform\<close>

text \<open>
  The sketches do not name a board. Two things they use depend on it: the \<open>long\<close> that
  \<open>String::toInt()\<close> returns (C leaves \<open>atol\<close> undefined when the digits overflow), and
  the width of \<open>int\<close>, the type of \<open>newSpeed\<close> (16 bits on AVR boards, 32 on ARM and ESP
  boards). Both are parameters. \<open>unsigned long\<close> is 32 bits and \<open>uint16_t\<close>, \<open>uint8_t\<close>
  are what they say on every Arduino board.
\<close>

record platform =
  toInt :: "string \<Rightarrow> int"
  int_bits :: nat

text \<open>The conversion of a \<open>long\<close> value to \<open>int\<close>: two's complement on \<open>int_bits\<close> bits.\<close>

definition to_int :: "platform \<Rightarrow> int \<Rightarrow> int" where
  "to_int p v = signed_take_bit (int_bits p - 1) v"

text \<open>
  \<open>int newSpeed = cmd.substring(6).toInt();\<close> in both sketches: the text after the
  six characters of \<open>speed \<close> is parsed and the \<open>long\<close> is narrowed to \<open>int\<close>.
\<close>

definition newSpeed :: "platform \<Rightarrow> string \<Rightarrow> int" where
  "newSpeed p cmd = to_int p (toInt p (substring cmd 6))"

text \<open>
  Two boards to run the model on: an AVR board (16-bit \<open>int\<close>, an \<open>atol\<close> that wraps on
  32 bits) and a 32-bit ARM board (an \<open>atol\<close> that saturates).
\<close>

definition avr_board :: platform where
  "avr_board = \<lparr>toInt = (\<lambda>s. signed_take_bit 31 (atol s)), int_bits = 16\<rparr>"

definition arm_board :: platform where
  "arm_board = \<lparr>toInt = (\<lambda>s. max (- 2147483648) (min 2147483647 (atol s))), int_bits = 32\<rparr>"

subsection \<open>Outputs: the serial port and the hardware\<close>

text \<open>
  One item for each call of \<open>Serial.print\<close> or \<open>Serial.println\<close>. The RPM lines print a
  \<open>float\<close> computed from \<open>stepPeriodUs\<close>; floating point is not modelled, the item keeps
  the period the value is computed from.
\<close>

datatype serial_item =
    Print string
  | Println string
  | PrintU16 "16 word"
  | PrintHex "16 word"
  | PrintRpm "16 word"
  | PrintlnRpm "16 word"

datatype pin_mode = OUTPUT

datatype hw_event =
    SerialBegin nat
  | SPIBegin
  | Delay nat
  | DelayMicroseconds nat
  | PinMode "8 word" pin_mode
  | DigitalWrite "8 word" bool
  | SdSetChipSelectPin "8 word"
  | SdResetSettings
  | SdClearFaults
  | SdSetCurrentMilliamps nat
  | SdSetStepModeMicroStep32
  | SdEnableSPIDirection
  | SdEnableSPIStep
  | SdEnableDriver
  | SdSetDirection "8 word"
  | SdStep
  | SdReadFault

definition HIGH :: bool where "HIGH = True"
definition LOW :: bool where "LOW = False"

subsection \<open>The globals\<close>

record 'd sketch =
  motorRunning :: bool
  motorDirection :: 'd
  stepPeriodUs :: "16 word"
  lastStepTime :: "32 word"
  serialOut :: "serial_item list"
  hwLog :: "hw_event list"

type_synonym spi_state = "(8 word) sketch"

record stepdir_state = "bool sketch" +
  stepPinState :: bool

definition print :: "string \<Rightarrow> ('d, 'm) sketch_scheme \<Rightarrow> ('d, 'm) sketch_scheme" where
  "print t s = s\<lparr>serialOut := serialOut s @ [Print t]\<rparr>"

definition println :: "string \<Rightarrow> ('d, 'm) sketch_scheme \<Rightarrow> ('d, 'm) sketch_scheme" where
  "println t s = s\<lparr>serialOut := serialOut s @ [Println t]\<rparr>"

definition serial :: "serial_item \<Rightarrow> ('d, 'm) sketch_scheme \<Rightarrow> ('d, 'm) sketch_scheme" where
  "serial x s = s\<lparr>serialOut := serialOut s @ [x]\<rparr>"

definition hw :: "hw_event \<Rightarrow> ('d, 'm) sketch_scheme \<Rightarrow> ('d, 'm) sketch_scheme" where
  "hw e s = s\<lparr>hwLog := hwLog s @ [e]\<rparr>"

text \<open>A block of statements, run in order.\<close>

definition block :: "('s \<Rightarrow> 's) list \<Rightarrow> 's \<Rightarrow> 's" where
  "block fs s = fold (\<lambda>f t. f t) fs s"

text \<open>An \<open>if\<close> without \<open>else\<close> around one statement.\<close>

definition if_stmt :: "bool \<Rightarrow> ('s \<Rightarrow> 's) \<Rightarrow> 's \<Rightarrow> 's" where
  "if_stmt c f s = (if c then f s else s)"

text \<open>
  \<open>while (!Serial) { ; }\<close> polls the serial port until it is ready. \<open>ready k\<close> is what
  poll number \<open>k\<close> finds; a port that never gets ready keeps \<open>setup\<close> from returning,
  which is the value \<open>None\<close>.
\<close>

partial_function (option) waitForSerial :: "(nat \<Rightarrow> bool) \<Rightarrow> nat \<Rightarrow> unit option" where
  "waitForSerial ready k = (if ready k then Some () else waitForSerial ready (Suc k))"

text \<open>What one pass of \<open>loop\<close> reads from outside.\<close>

record loop_input =
  serialLine :: "string option"
  microsNow :: "32 word"
  faultReg :: "16 word"

section \<open>The SPI sketch\<close>

definition CSPin :: "8 word" where "CSPin = 10"

text \<open>The initial values of the globals, and empty logs.\<close>

definition globals_spi :: spi_state where
  "globals_spi =
     \<lparr>motorRunning = False, motorDirection = 0, stepPeriodUs = 2000, lastStepTime = 0,
      serialOut = [], hwLog = []\<rparr>"

definition printHelp_spi :: "spi_state \<Rightarrow> spi_state" where
  "printHelp_spi =
     block
      [println ''\<newline>=== COMMANDS ==='',
       println ''start (s)       - Start motor'',
       println ''stop (x)        - Stop motor'',
       println ''forward (f)     - Set direction to forward'',
       println ''reverse (r)     - Set direction to reverse'',
       println ''speed <value>   - Set speed (100-50000 us, lower=faster)'',
       println (''                  Examples: 'speed 1000' or 'speed 5000'' @ [CHR 0x27]),
       println ''status (?)      - Show current motor status'',
       println ''fault           - Check driver fault status'',
       println ''help (h)        - Show this help menu'',
       println ''================\<newline>'']"

definition printStatus_spi :: "spi_state \<Rightarrow> spi_state" where
  "printStatus_spi =
     block
      [println ''\<newline>=== MOTOR STATUS ==='',
       print ''Running: '',
       (\<lambda>s. println (if motorRunning s then ''YES'' else ''NO'') s),
       print ''Direction: '',
       (\<lambda>s. println (if motorDirection s = 0 then ''Forward'' else ''Reverse'') s),
       print ''Speed Period: '',
       (\<lambda>s. serial (PrintU16 (stepPeriodUs s)) s),
       println '' us'',
       print ''Approximate RPM: '',
       (\<lambda>s. serial (PrintlnRpm (stepPeriodUs s)) s),
       println ''====================\<newline>'']"

text \<open>\<open>fault\<close> is the value of \<open>faultStatus\<close>, what \<open>sd.readFault()\<close> returns.\<close>

definition printDriverStatus :: "16 word \<Rightarrow> spi_state \<Rightarrow> spi_state" where
  "printDriverStatus fault =
     block
      [hw SdReadFault,
       print ''Fault Status: 0x'',
       serial (PrintHex fault),
       (\<lambda>s. if fault = 0 then println '' (No faults)'' s
            else block
              [println [],
               if_stmt (fault AND 0x01 \<noteq> 0) (println ''  - Fault detected''),
               if_stmt (fault AND 0x02 \<noteq> 0) (println ''  - SPI Error''),
               if_stmt (fault AND 0x04 \<noteq> 0) (println ''  - Undervoltage lockout''),
               if_stmt (fault AND 0x08 \<noteq> 0) (println ''  - Charge pump undervoltage''),
               if_stmt (fault AND 0x10 \<noteq> 0) (println ''  - Overtemperature warning''),
               if_stmt (fault AND 0x20 \<noteq> 0) (println ''  - Overtemperature shutdown''),
               if_stmt (fault AND 0x40 \<noteq> 0) (println ''  - Channel A overcurrent''),
               if_stmt (fault AND 0x80 \<noteq> 0) (println ''  - Channel B overcurrent'')] s),
       println []]"

definition setup_spi :: "(nat \<Rightarrow> bool) \<Rightarrow> 16 word \<Rightarrow> spi_state \<Rightarrow> spi_state option" where
  "setup_spi ready fault s =
     (case waitForSerial ready 0 of
        None \<Rightarrow> None
      | Some _ \<Rightarrow>
          Some (block
            [println ''DRV8434S Interactive Stepper Driver'',
             println ''===================================='',
             hw SPIBegin,
             hw (SdSetChipSelectPin CSPin),
             hw (Delay 1),
             hw SdResetSettings,
             hw SdClearFaults,
             println ''Driver reset complete'',
             hw (SdSetCurrentMilliamps 1000),
             println ''Current limit set to 1000 mA'',
             hw SdSetStepModeMicroStep32,
             println ''Step mode: 1/32 microstep'',
             hw SdEnableSPIDirection,
             hw SdEnableSPIStep,
             println ''SPI control enabled'',
             hw SdEnableDriver,
             println ''Driver enabled'',
             printDriverStatus fault,
             printHelp_spi] (hw (SerialBegin 115200) s)))"

definition processCommand_spi :: "platform \<Rightarrow> 16 word \<Rightarrow> string \<Rightarrow> spi_state \<Rightarrow> spi_state" where
  "processCommand_spi p fault cmd s =
     (if equals cmd ''start'' \<or> equals cmd ''s'' then
        block
         [(\<lambda>s. s\<lparr>motorRunning := True\<rparr>),
          (\<lambda>s. hw (SdSetDirection (motorDirection s)) s),
          println ''Motor STARTED'',
          print ''Direction: '',
          (\<lambda>s. println (if motorDirection s = 0 then ''Forward'' else ''Reverse'') s),
          print ''Speed (period): '',
          (\<lambda>s. serial (PrintU16 (stepPeriodUs s)) s),
          println '' us''] s
      else if equals cmd ''stop'' \<or> equals cmd ''x'' then
        block
         [(\<lambda>s. s\<lparr>motorRunning := False\<rparr>),
          println ''Motor STOPPED''] s
      else if equals cmd ''forward'' \<or> equals cmd ''f'' then
        block
         [(\<lambda>s. s\<lparr>motorDirection := 0\<rparr>),
          (\<lambda>s. hw (SdSetDirection (motorDirection s)) s),
          println ''Direction set to FORWARD'',
          (\<lambda>s. if_stmt (motorRunning s) (println ''(Change will take effect immediately)'') s)] s
      else if equals cmd ''reverse'' \<or> equals cmd ''r'' then
        block
         [(\<lambda>s. s\<lparr>motorDirection := 1\<rparr>),
          (\<lambda>s. hw (SdSetDirection (motorDirection s)) s),
          println ''Direction set to REVERSE'',
          (\<lambda>s. if_stmt (motorRunning s) (println ''(Change will take effect immediately)'') s)] s
      else if startsWith cmd ''speed '' then
        (if newSpeed p cmd \<ge> 100 \<and> newSpeed p cmd \<le> 50000 then
           block
            [(\<lambda>s. s\<lparr>stepPeriodUs := word_of_int (newSpeed p cmd)\<rparr>),
             print ''Speed set to '',
             (\<lambda>s. serial (PrintU16 (stepPeriodUs s)) s),
             println '' us (lower = faster)''] s
         else println ''ERROR: Speed must be between 100 and 50000'' s)
      else if equals cmd ''status'' \<or> equals cmd ''?'' then printStatus_spi s
      else if equals cmd ''help'' \<or> equals cmd ''h'' then printHelp_spi s
      else if equals cmd ''fault'' then printDriverStatus fault s
      else println ''Unknown command. Type 'help' for commands.'' s)"

text \<open>
  The first half of \<open>loop\<close>: when a line is waiting on the serial port it is read, trimmed,
  lowercased and processed. \<open>serialLine i\<close> is \<open>None\<close> when \<open>Serial.available()\<close> is 0,
  and otherwise what \<open>Serial.readStringUntil\<close> returns.
\<close>

definition handleSerial_spi :: "platform \<Rightarrow> loop_input \<Rightarrow> spi_state \<Rightarrow> spi_state" where
  "handleSerial_spi p i s =
     (case serialLine i of
        None \<Rightarrow> s
      | Some command \<Rightarrow> processCommand_spi p (faultReg i) (toLowerCase (trim command)) s)"

text \<open>
  The second half: step the motor if running. The subtraction is on \<open>unsigned long\<close>
  and wraps; \<open>stepPeriodUs\<close> is widened for the comparison.
\<close>

definition stepMotor_spi :: "loop_input \<Rightarrow> spi_state \<Rightarrow> spi_state" where
  "stepMotor_spi i s =
     (if motorRunning s then
        (let currentTime = microsNow i in
         if currentTime - lastStepTime s \<ge> ucast (stepPeriodUs s) then
           block [hw SdStep, (\<lambda>s. s\<lparr>lastStepTime := currentTime\<rparr>)] s
         else s)
      else s)"

definition loop_spi :: "platform \<Rightarrow> loop_input \<Rightarrow> spi_state \<Rightarrow> spi_state" where
  "loop_spi p i s = stepMotor_spi i (handleSerial_spi p i s)"

text \<open>The sketch after \<open>setup\<close>: \<open>loop\<close> again and again, one input for each pass.\<close>

fun run_spi :: "platform \<Rightarrow> loop_input list \<Rightarrow> spi_state \<Rightarrow> spi_state" where
  "run_spi p [] s = s"
| "run_spi p (i # is) s = run_spi p is (loop_spi p i s)"

section \<open>The STEP/DIR sketch\<close>

definition STEP_PIN :: "8 word" where "STEP_PIN = 3"
definition DIR_PIN :: "8 word" where "DIR_PIN = 2"
definition ENABLE_PIN :: "8 word" where "ENABLE_PIN = 4"

definition globals_stepdir :: stepdir_state where
  "globals_stepdir =
     \<lparr>motorRunning = False, motorDirection = False, stepPeriodUs = 2000, lastStepTime = 0,
      serialOut = [], hwLog = [], stepPinState = False\<rparr>"

definition digitalWrite :: "8 word \<Rightarrow> bool \<Rightarrow> stepdir_state \<Rightarrow> stepdir_state" where
  "digitalWrite pin val s = hw (DigitalWrite pin val) s"

definition printHelp_stepdir :: "stepdir_state \<Rightarrow> stepdir_state" where
  "printHelp_stepdir =
     block
      [println ''\<newline>=== COMMANDS ==='',
       println ''start (s)       - Start motor'',
       println ''stop (x)        - Stop motor'',
       println ''forward (f)     - Set direction to forward'',
       println ''reverse (r)     - Set direction to reverse'',
       println ''speed <value>   - Set speed (100-50000 us, lower=faster)'',
       println (''                  Examples: 'speed 1000' or 'speed 5000'' @ [CHR 0x27]),
       println ''status (?)      - Show current motor status'',
       println ''enable          - Enable driver'',
       println ''disable         - Disable driver'',
       println ''help (h)        - Show this help menu'',
       println ''================\<newline>'']"

definition printStatus_stepdir :: "stepdir_state \<Rightarrow> stepdir_state" where
  "printStatus_stepdir =
     block
      [println ''\<newline>=== MOTOR STATUS ==='',
       print ''Running: '',
       (\<lambda>s. println (if motorRunning s then ''YES'' else ''NO'') s),
       print ''Direction: '',
       (\<lambda>s. println (if motorDirection s then ''Reverse'' else ''Forward'') s),
       print ''Speed Period: '',
       (\<lambda>s. serial (PrintU16 (stepPeriodUs s)) s),
       println '' us'',
       print ''Approximate RPM: '',
       (\<lambda>s. serial (PrintRpm (stepPeriodUs s)) s),
       println '' (Verify microstep setting!)'',
       println ''====================\<newline>'']"

definition setup_stepdir :: "(nat \<Rightarrow> bool) \<Rightarrow> stepdir_state \<Rightarrow> stepdir_state option" where
  "setup_stepdir ready s =
     (case waitForSerial ready 0 of
        None \<Rightarrow> None
      | Some _ \<Rightarrow>
          Some (block
            [println ''STEP/DIR Stepper Motor Controller'',
             println ''=================================='',
             hw (PinMode STEP_PIN OUTPUT),
             hw (PinMode DIR_PIN OUTPUT),
             hw (PinMode ENABLE_PIN OUTPUT),
             digitalWrite STEP_PIN LOW,
             digitalWrite DIR_PIN LOW,
             digitalWrite ENABLE_PIN HIGH,
             println ''Pins configured'',
             println ''NOTE: Set microstep mode using DRV8434S MODE pins'',
             println ''(Refer to datasheet for MODE pin configuration)'',
             hw (Delay 100),
             printHelp_stepdir] (hw (SerialBegin 115200) s)))"

definition processCommand_stepdir :: "platform \<Rightarrow> string \<Rightarrow> stepdir_state \<Rightarrow> stepdir_state" where
  "processCommand_stepdir p cmd s =
     (if equals cmd ''start'' \<or> equals cmd ''s'' then
        block
         [(\<lambda>s. s\<lparr>motorRunning := True\<rparr>),
          (\<lambda>s. digitalWrite DIR_PIN (motorDirection s) s),
          println ''Motor STARTED'',
          print ''Direction: '',
          (\<lambda>s. println (if motorDirection s then ''Reverse'' else ''Forward'') s),
          print ''Speed (period): '',
          (\<lambda>s. serial (PrintU16 (stepPeriodUs s)) s),
          println '' us''] s
      else if equals cmd ''stop'' \<or> equals cmd ''x'' then
        block
         [(\<lambda>s. s\<lparr>motorRunning := False\<rparr>),
          digitalWrite STEP_PIN LOW,
          println ''Motor STOPPED''] s
      else if equals cmd ''forward'' \<or> equals cmd ''f'' then
        block
         [(\<lambda>s. s\<lparr>motorDirection := False\<rparr>),
          (\<lambda>s. digitalWrite DIR_PIN (motorDirection s) s),
          println ''Direction set to FORWARD'',
          (\<lambda>s. if_stmt (motorRunning s) (println ''(Change will take effect immediately)'') s)] s
      else if equals cmd ''reverse'' \<or> equals cmd ''r'' then
        block
         [(\<lambda>s. s\<lparr>motorDirection := True\<rparr>),
          (\<lambda>s. digitalWrite DIR_PIN (motorDirection s) s),
          println ''Direction set to REVERSE'',
          (\<lambda>s. if_stmt (motorRunning s) (println ''(Change will take effect immediately)'') s)] s
      else if startsWith cmd ''speed '' then
        (if newSpeed p cmd \<ge> 100 \<and> newSpeed p cmd \<le> 50000 then
           block
            [(\<lambda>s. s\<lparr>stepPeriodUs := word_of_int (newSpeed p cmd)\<rparr>),
             print ''Speed set to '',
             (\<lambda>s. serial (PrintU16 (stepPeriodUs s)) s),
             println '' us (lower = faster)''] s
         else println ''ERROR: Speed must be between 100 and 50000'' s)
      else if equals cmd ''status'' \<or> equals cmd ''?'' then printStatus_stepdir s
      else if equals cmd ''help'' \<or> equals cmd ''h'' then printHelp_stepdir s
      else if equals cmd ''enable'' then
        block
         [digitalWrite ENABLE_PIN HIGH,
          println ''Driver ENABLED''] s
      else if equals cmd ''disable'' then
        block
         [digitalWrite ENABLE_PIN LOW,
          (\<lambda>s. s\<lparr>motorRunning := False\<rparr>),
          println ''Driver DISABLED''] s
      else println ''Unknown command. Type 'help' for commands.'' s)"

definition handleSerial_stepdir :: "platform \<Rightarrow> loop_input \<Rightarrow> stepdir_state \<Rightarrow> stepdir_state" where
  "handleSerial_stepdir p i s =
     (case serialLine i of
        None \<Rightarrow> s
      | Some command \<Rightarrow> processCommand_stepdir p (toLowerCase (trim command)) s)"

text \<open>The step is a pulse on the STEP pin: high, 6 microseconds, low.\<close>

definition stepMotor_stepdir :: "loop_input \<Rightarrow> stepdir_state \<Rightarrow> stepdir_state" where
  "stepMotor_stepdir i s =
     (if motorRunning s then
        (let currentTime = microsNow i in
         if currentTime - lastStepTime s \<ge> ucast (stepPeriodUs s) then
           block
            [digitalWrite STEP_PIN HIGH,
             hw (DelayMicroseconds 6),
             digitalWrite STEP_PIN LOW,
             (\<lambda>s. s\<lparr>lastStepTime := currentTime\<rparr>)] s
         else s)
      else s)"

definition loop_stepdir :: "platform \<Rightarrow> loop_input \<Rightarrow> stepdir_state \<Rightarrow> stepdir_state" where
  "loop_stepdir p i s = stepMotor_stepdir i (handleSerial_stepdir p i s)"

fun run_stepdir :: "platform \<Rightarrow> loop_input list \<Rightarrow> stepdir_state \<Rightarrow> stepdir_state" where
  "run_stepdir p [] s = s"
| "run_stepdir p (i # is) s = run_stepdir p is (loop_stepdir p i s)"

section \<open>What the properties speak of\<close>

text \<open>The \<open>else\<close> branch of \<open>processCommand\<close>, in both sketches.\<close>

definition unknownCommand :: "('d, 'm) sketch_scheme \<Rightarrow> ('d, 'm) sketch_scheme" where
  "unknownCommand s = println ''Unknown command. Type 'help' for commands.'' s"

text \<open>The words each sketch compares the line with (\<open>cmd == "..."\<close>).\<close>

definition commandWords_spi :: "string list" where
  "commandWords_spi =
     [''start'', ''s'', ''stop'', ''x'', ''forward'', ''f'', ''reverse'', ''r'',
      ''status'', ''?'', ''help'', ''h'', ''fault'']"

definition commandWords_stepdir :: "string list" where
  "commandWords_stepdir =
     [''start'', ''s'', ''stop'', ''x'', ''forward'', ''f'', ''reverse'', ''r'',
      ''status'', ''?'', ''help'', ''h'', ''enable'', ''disable'']"

text \<open>
  The abstract control state of the two sketches: running, reverse, period. The SPI
  sketch keeps the direction in a \<open>uint8_t\<close> and reads 0 as forward.
\<close>

definition control_spi :: "spi_state \<Rightarrow> bool \<times> bool \<times> 16 word" where
  "control_spi s = (motorRunning s, motorDirection s \<noteq> 0, stepPeriodUs s)"

definition control_stepdir :: "stepdir_state \<Rightarrow> bool \<times> bool \<times> 16 word" where
  "control_stepdir s = (motorRunning s, motorDirection s, stepPeriodUs s)"

text \<open>
  The steps issued so far: calls of \<open>sd.step()\<close> in the SPI sketch, rising edges
  written to the STEP pin in the STEP/DIR sketch.
\<close>

definition stepsIssued_spi :: "spi_state \<Rightarrow> nat" where
  "stepsIssued_spi s = length (filter (\<lambda>e. e = SdStep) (hwLog s))"

definition stepsIssued_stepdir :: "stepdir_state \<Rightarrow> nat" where
  "stepsIssued_stepdir s = length (filter (\<lambda>e. e = DigitalWrite STEP_PIN HIGH) (hwLog s))"

text \<open>
  The timer check of \<open>loop\<close>: the motor is running and
  \<open>currentTime - lastStepTime >= stepPeriodUs\<close>.
\<close>

definition stepDue :: "loop_input \<Rightarrow> ('d, 'm) sketch_scheme \<Rightarrow> bool" where
  "stepDue i s = (motorRunning s \<and> microsNow i - lastStepTime s \<ge> ucast (stepPeriodUs s))"

text \<open>
  A pass of \<open>loop\<close> carries one of the words \<open>ws\<close>: its line, trimmed and lowercased,
  matches the word as the code's \<open>==\<close> decides.
\<close>

definition carries :: "loop_input \<Rightarrow> string list \<Rightarrow> bool" where
  "carries i ws =
     (case serialLine i of
        None \<Rightarrow> False
      | Some l \<Rightarrow> list_ex (equals (toLowerCase (trim l))) ws)"

text \<open>
  The value a pass of \<open>loop\<close> assigns to \<open>stepPeriodUs\<close>: its line is a speed command
  and \<open>newSpeed\<close> passes the range check. \<open>newSpeed\<close> is the parsed \<open>long\<close> narrowed
  to \<open>int\<close>, which on a board with a 16-bit \<open>int\<close> need not be the number in the line.
  \<open>lastAssigned\<close> is the value of the latest such pass, and 2000 when there is none.
\<close>

definition assignedPeriod :: "platform \<Rightarrow> loop_input \<Rightarrow> int option" where
  "assignedPeriod p i =
     (case serialLine i of
        None \<Rightarrow> None
      | Some l \<Rightarrow>
          if startsWith (toLowerCase (trim l)) ''speed '' \<and>
             100 \<le> newSpeed p (toLowerCase (trim l)) \<and>
             newSpeed p (toLowerCase (trim l)) \<le> 50000
          then Some (newSpeed p (toLowerCase (trim l))) else None)"

definition lastAssigned :: "platform \<Rightarrow> loop_input list \<Rightarrow> int" where
  "lastAssigned p is =
     (case List.map_filter (assignedPeriod p) is of [] \<Rightarrow> 2000 | n # ns \<Rightarrow> last (n # ns))"

text \<open>
  An argument \<open>atol\<close> reads no number from: after the white space and an optional sign
  there is no digit.
\<close>

definition nonNumeric :: "string \<Rightarrow> bool" where
  "nonNumeric arg =
     (case dropWhile isspace arg of
        [] \<Rightarrow> True
      | c # cs \<Rightarrow>
          if c = CHR ''-'' \<or> c = CHR ''+'' then (case cs of [] \<Rightarrow> True | d # _ \<Rightarrow> \<not> isdigit d)
          else \<not> isdigit c)"

text \<open>The level of a pin: what the latest \<open>digitalWrite\<close> to it wrote.\<close>

fun lastWrite :: "8 word \<Rightarrow> hw_event list \<Rightarrow> bool option" where
  "lastWrite pin [] = None"
| "lastWrite pin (e # es) =
     (case lastWrite pin es of
        Some v \<Rightarrow> Some v
      | None \<Rightarrow> (case e of DigitalWrite q v \<Rightarrow> if q = pin then Some v else None | _ \<Rightarrow> None))"

text \<open>Inputs of one pass of \<open>loop\<close>, for the examples: a line waiting, or none.\<close>

definition line_at :: "string \<Rightarrow> 32 word \<Rightarrow> loop_input" where
  "line_at l now = \<lparr>serialLine = Some l, microsNow = now, faultReg = 0\<rparr>"

definition idle_at :: "32 word \<Rightarrow> loop_input" where
  "idle_at now = \<lparr>serialLine = None, microsNow = now, faultReg = 0\<rparr>"

section \<open>Statements and their effect on the globals\<close>

lemma block_Nil [simp]: "block [] s = s"
  by (simp add: block_def)

lemma block_Cons [simp]: "block (f # fs) s = block fs (f s)"
  by (simp add: block_def)

lemma print_fields [simp]:
  "motorRunning (print t s) = motorRunning s"
  "motorDirection (print t s) = motorDirection s"
  "stepPeriodUs (print t s) = stepPeriodUs s"
  "lastStepTime (print t s) = lastStepTime s"
  "hwLog (print t s) = hwLog s"
  "serialOut (print t s) = serialOut s @ [Print t]"
  by (simp_all add: print_def)

lemma println_fields [simp]:
  "motorRunning (println t s) = motorRunning s"
  "motorDirection (println t s) = motorDirection s"
  "stepPeriodUs (println t s) = stepPeriodUs s"
  "lastStepTime (println t s) = lastStepTime s"
  "hwLog (println t s) = hwLog s"
  "serialOut (println t s) = serialOut s @ [Println t]"
  by (simp_all add: println_def)

lemma if_stmt_println_fields [simp]:
  "motorRunning (if_stmt c (println t) s) = motorRunning s"
  "motorDirection (if_stmt c (println t) s) = motorDirection s"
  "stepPeriodUs (if_stmt c (println t) s) = stepPeriodUs s"
  "lastStepTime (if_stmt c (println t) s) = lastStepTime s"
  "hwLog (if_stmt c (println t) s) = hwLog s"
  "serialOut (if_stmt c (println t) s) = serialOut s @ (if c then [Println t] else [])"
  by (simp_all add: if_stmt_def)

lemma serial_fields [simp]:
  "motorRunning (serial x s) = motorRunning s"
  "motorDirection (serial x s) = motorDirection s"
  "stepPeriodUs (serial x s) = stepPeriodUs s"
  "lastStepTime (serial x s) = lastStepTime s"
  "hwLog (serial x s) = hwLog s"
  "serialOut (serial x s) = serialOut s @ [x]"
  by (simp_all add: serial_def)

lemma hw_fields [simp]:
  "motorRunning (hw e s) = motorRunning s"
  "motorDirection (hw e s) = motorDirection s"
  "stepPeriodUs (hw e s) = stepPeriodUs s"
  "lastStepTime (hw e s) = lastStepTime s"
  "serialOut (hw e s) = serialOut s"
  "hwLog (hw e s) = hwLog s @ [e]"
  by (simp_all add: hw_def)

lemma digitalWrite_fields [simp]:
  "motorRunning (digitalWrite pin v s) = motorRunning s"
  "motorDirection (digitalWrite pin v s) = motorDirection s"
  "stepPeriodUs (digitalWrite pin v s) = stepPeriodUs s"
  "lastStepTime (digitalWrite pin v s) = lastStepTime s"
  "serialOut (digitalWrite pin v s) = serialOut s"
  "hwLog (digitalWrite pin v s) = hwLog s @ [DigitalWrite pin v]"
  by (simp_all add: digitalWrite_def)

lemma printHelp_spi_fields [simp]:
  "motorRunning (printHelp_spi s) = motorRunning s"
  "motorDirection (printHelp_spi s) = motorDirection s"
  "stepPeriodUs (printHelp_spi s) = stepPeriodUs s"
  "lastStepTime (printHelp_spi s) = lastStepTime s"
  "hwLog (printHelp_spi s) = hwLog s"
  by (simp_all add: printHelp_spi_def)

lemma printStatus_spi_fields [simp]:
  "motorRunning (printStatus_spi s) = motorRunning s"
  "motorDirection (printStatus_spi s) = motorDirection s"
  "stepPeriodUs (printStatus_spi s) = stepPeriodUs s"
  "lastStepTime (printStatus_spi s) = lastStepTime s"
  "hwLog (printStatus_spi s) = hwLog s"
  by (simp_all add: printStatus_spi_def)

lemma printDriverStatus_fields [simp]:
  "motorRunning (printDriverStatus f s) = motorRunning s"
  "motorDirection (printDriverStatus f s) = motorDirection s"
  "stepPeriodUs (printDriverStatus f s) = stepPeriodUs s"
  "lastStepTime (printDriverStatus f s) = lastStepTime s"
  "hwLog (printDriverStatus f s) = hwLog s @ [SdReadFault]"
  by (simp_all add: printDriverStatus_def)

lemma printHelp_stepdir_fields [simp]:
  "motorRunning (printHelp_stepdir s) = motorRunning s"
  "motorDirection (printHelp_stepdir s) = motorDirection s"
  "stepPeriodUs (printHelp_stepdir s) = stepPeriodUs s"
  "lastStepTime (printHelp_stepdir s) = lastStepTime s"
  "hwLog (printHelp_stepdir s) = hwLog s"
  by (simp_all add: printHelp_stepdir_def)

lemma printStatus_stepdir_fields [simp]:
  "motorRunning (printStatus_stepdir s) = motorRunning s"
  "motorDirection (printStatus_stepdir s) = motorDirection s"
  "stepPeriodUs (printStatus_stepdir s) = stepPeriodUs s"
  "lastStepTime (printStatus_stepdir s) = lastStepTime s"
  "hwLog (printStatus_stepdir s) = hwLog s"
  by (simp_all add: printStatus_stepdir_def)

section \<open>What \<open>processCommand\<close> does to each global\<close>

lemma c_str_idem [simp]: "c_str (c_str s) = c_str s"
  by (simp add: c_str_def)

lemma equals_c_str [simp]: "equals (c_str s) w = equals s w"
  by (simp add: equals_def)

lemma c_str_no_NUL: "CHR 0x00 \<notin> set s \<Longrightarrow> c_str s = s"
  by (auto simp add: c_str_def)

lemma c_str_prefix: "s = c_str s @ dropWhile (\<lambda>c. c \<noteq> CHR 0x00) s"
  by (simp add: c_str_def)

lemma c_str_speed:
  assumes "startsWith cmd ''speed ''"
  shows "c_str cmd = ''speed '' @ c_str (drop 6 cmd)"
proof -
  have "length ''speed '' = 6"
    by simp
  with assms have "take 6 cmd = ''speed ''"
    unfolding startsWith_def by (simp only:)
  then have "cmd = ''speed '' @ drop 6 cmd"
    by (metis append_take_drop_id)
  then have "c_str cmd = c_str (''speed '' @ drop 6 cmd)"
    by simp
  then show ?thesis
    by (simp add: c_str_def)
qed

lemma startsWith_speed_not_word:
  assumes "startsWith cmd ''speed ''"
  shows "\<not> equals cmd ''start''" "\<not> equals cmd ''s''" "\<not> equals cmd ''stop''"
    "\<not> equals cmd ''x''" "\<not> equals cmd ''forward''" "\<not> equals cmd ''f''"
    "\<not> equals cmd ''reverse''" "\<not> equals cmd ''r''"
  by (simp_all add: equals_def c_str_speed [OF assms]) (simp_all add: c_str_def)

lemma startsWith_c_str [simp]: "startsWith (c_str cmd) ''speed '' = startsWith cmd ''speed ''"
proof
  assume "startsWith cmd ''speed ''"
  from c_str_speed [OF this] show "startsWith (c_str cmd) ''speed ''"
    by (simp add: startsWith_def)
next
  assume a: "startsWith (c_str cmd) ''speed ''"
  have l: "length ''speed '' = 6"
    by simp
  from a have t: "take 6 (c_str cmd) = ''speed ''"
    unfolding startsWith_def l .
  then have "length (take 6 (c_str cmd)) = 6"
    by simp
  then have "6 \<le> length (c_str cmd)"
    by simp
  then have "take 6 (c_str cmd @ dropWhile (\<lambda>c. c \<noteq> CHR 0x00) cmd) = take 6 (c_str cmd)"
    by simp
  with t have "take 6 cmd = ''speed ''"
    using c_str_prefix [of cmd] by simp
  then show "startsWith cmd ''speed ''"
    unfolding startsWith_def l .
qed

lemma substring_c_str:
  assumes "startsWith cmd ''speed ''"
  shows "substring (c_str cmd) 6 = substring cmd 6"
  by (simp add: substring_def c_str_speed [OF assms])

lemma newSpeed_c_str:
  "startsWith cmd ''speed '' \<Longrightarrow> newSpeed p (c_str cmd) = newSpeed p cmd"
  by (simp add: newSpeed_def substring_c_str)

lemma motorRunning_processCommand_spi:
  "motorRunning (processCommand_spi p f cmd s) =
     (if equals cmd ''start'' \<or> equals cmd ''s'' then True
      else if equals cmd ''stop'' \<or> equals cmd ''x'' then False else motorRunning s)"
  by (simp add: processCommand_spi_def)

lemma motorDirection_processCommand_spi:
  "motorDirection (processCommand_spi p f cmd s) =
     (if equals cmd ''start'' \<or> equals cmd ''s'' \<or> equals cmd ''stop'' \<or> equals cmd ''x'' then motorDirection s
      else if equals cmd ''forward'' \<or> equals cmd ''f'' then 0
      else if equals cmd ''reverse'' \<or> equals cmd ''r'' then 1 else motorDirection s)"
  by (simp add: processCommand_spi_def)

lemma lastStepTime_processCommand_spi:
  "lastStepTime (processCommand_spi p f cmd s) = lastStepTime s"
  by (simp add: processCommand_spi_def)

lemma hwLog_processCommand_spi:
  "hwLog (processCommand_spi p f cmd s) = hwLog s @
     (if equals cmd ''start'' \<or> equals cmd ''s'' then [SdSetDirection (motorDirection s)]
      else if equals cmd ''stop'' \<or> equals cmd ''x'' then []
      else if equals cmd ''forward'' \<or> equals cmd ''f'' then [SdSetDirection 0]
      else if equals cmd ''reverse'' \<or> equals cmd ''r'' then [SdSetDirection 1]
      else if startsWith cmd ''speed '' then []
      else if equals cmd ''status'' \<or> equals cmd ''?'' then []
      else if equals cmd ''help'' \<or> equals cmd ''h'' then []
      else if equals cmd ''fault'' then [SdReadFault]
      else [])"
  by (simp add: processCommand_spi_def)

lemma motorRunning_processCommand_stepdir:
  "motorRunning (processCommand_stepdir p cmd s) =
     (if equals cmd ''start'' \<or> equals cmd ''s'' then True
      else if equals cmd ''stop'' \<or> equals cmd ''x'' then False
      else if equals cmd ''forward'' \<or> equals cmd ''f'' then motorRunning s
      else if equals cmd ''reverse'' \<or> equals cmd ''r'' then motorRunning s
      else if startsWith cmd ''speed '' then motorRunning s
      else if equals cmd ''status'' \<or> equals cmd ''?'' then motorRunning s
      else if equals cmd ''help'' \<or> equals cmd ''h'' then motorRunning s
      else if equals cmd ''enable'' then motorRunning s
      else if equals cmd ''disable'' then False
      else motorRunning s)"
  by (simp add: processCommand_stepdir_def)

lemma motorDirection_processCommand_stepdir:
  "motorDirection (processCommand_stepdir p cmd s) =
     (if equals cmd ''start'' \<or> equals cmd ''s'' \<or> equals cmd ''stop'' \<or> equals cmd ''x'' then motorDirection s
      else if equals cmd ''forward'' \<or> equals cmd ''f'' then False
      else if equals cmd ''reverse'' \<or> equals cmd ''r'' then True else motorDirection s)"
  by (simp add: processCommand_stepdir_def)

lemma lastStepTime_processCommand_stepdir:
  "lastStepTime (processCommand_stepdir p cmd s) = lastStepTime s"
  by (simp add: processCommand_stepdir_def)

lemma hwLog_processCommand_stepdir:
  "hwLog (processCommand_stepdir p cmd s) = hwLog s @
     (if equals cmd ''start'' \<or> equals cmd ''s'' then [DigitalWrite DIR_PIN (motorDirection s)]
      else if equals cmd ''stop'' \<or> equals cmd ''x'' then [DigitalWrite STEP_PIN LOW]
      else if equals cmd ''forward'' \<or> equals cmd ''f'' then [DigitalWrite DIR_PIN False]
      else if equals cmd ''reverse'' \<or> equals cmd ''r'' then [DigitalWrite DIR_PIN True]
      else if startsWith cmd ''speed '' then []
      else if equals cmd ''status'' \<or> equals cmd ''?'' then []
      else if equals cmd ''help'' \<or> equals cmd ''h'' then []
      else if equals cmd ''enable'' then [DigitalWrite ENABLE_PIN HIGH]
      else if equals cmd ''disable'' then [DigitalWrite ENABLE_PIN LOW]
      else [])"
  by (simp add: processCommand_stepdir_def)

text \<open>The speed branch, reached by every line that starts with \<open>speed \<close>.\<close>

lemma speed_branch_spi:
  assumes "startsWith cmd ''speed ''"
  shows "processCommand_spi p f cmd s =
     (if 100 \<le> newSpeed p cmd \<and> newSpeed p cmd \<le> 50000
      then s\<lparr>stepPeriodUs := word_of_int (newSpeed p cmd),
             serialOut := serialOut s @
               [Print ''Speed set to '', PrintU16 (word_of_int (newSpeed p cmd)),
                Println '' us (lower = faster)'']\<rparr>
      else println ''ERROR: Speed must be between 100 and 50000'' s)"
  using assms startsWith_speed_not_word [OF assms]
  by (simp add: processCommand_spi_def print_def println_def serial_def)

lemma speed_branch_stepdir:
  assumes "startsWith cmd ''speed ''"
  shows "processCommand_stepdir p cmd s =
     (if 100 \<le> newSpeed p cmd \<and> newSpeed p cmd \<le> 50000
      then s\<lparr>stepPeriodUs := word_of_int (newSpeed p cmd),
             serialOut := serialOut s @
               [Print ''Speed set to '', PrintU16 (word_of_int (newSpeed p cmd)),
                Println '' us (lower = faster)'']\<rparr>
      else println ''ERROR: Speed must be between 100 and 50000'' s)"
  using assms startsWith_speed_not_word [OF assms]
  by (simp add: processCommand_stepdir_def print_def println_def serial_def)

lemma stepPeriodUs_processCommand_spi:
  "stepPeriodUs (processCommand_spi p f cmd s) =
     (if startsWith cmd ''speed '' \<and> 100 \<le> newSpeed p cmd \<and> newSpeed p cmd \<le> 50000
      then word_of_int (newSpeed p cmd) else stepPeriodUs s)"
proof (cases "startsWith cmd ''speed ''")
  case True
  then show ?thesis by (simp add: speed_branch_spi)
next
  case False
  then show ?thesis by (simp add: processCommand_spi_def)
qed

lemma stepPeriodUs_processCommand_stepdir:
  "stepPeriodUs (processCommand_stepdir p cmd s) =
     (if startsWith cmd ''speed '' \<and> 100 \<le> newSpeed p cmd \<and> newSpeed p cmd \<le> 50000
      then word_of_int (newSpeed p cmd) else stepPeriodUs s)"
proof (cases "startsWith cmd ''speed ''")
  case True
  then show ?thesis by (simp add: speed_branch_stepdir)
next
  case False
  then show ?thesis by (simp add: processCommand_stepdir_def)
qed

text \<open>\<open>processCommand\<close> reads its line as a C string.\<close>

lemma processCommand_spi_c_str:
  "processCommand_spi p f (c_str cmd) s = processCommand_spi p f cmd s"
proof (cases "startsWith cmd ''speed ''")
  case True
  then show ?thesis
    by (simp add: speed_branch_spi newSpeed_c_str)
next
  case False
  then show ?thesis
    by (simp add: processCommand_spi_def)
qed

lemma processCommand_stepdir_c_str:
  "processCommand_stepdir p (c_str cmd) s = processCommand_stepdir p cmd s"
proof (cases "startsWith cmd ''speed ''")
  case True
  then show ?thesis
    by (simp add: speed_branch_stepdir newSpeed_c_str)
next
  case False
  then show ?thesis
    by (simp add: processCommand_stepdir_def)
qed

text \<open>Lines that are no command word and no speed command reach the \<open>else\<close> branch.\<close>

lemma unknown_spi:
  assumes "c_str cmd \<notin> set commandWords_spi" and "\<not> startsWith cmd ''speed ''"
  shows "processCommand_spi p f cmd s = unknownCommand s"
proof -
  from assms(1) have "\<not> equals cmd ''start''" "\<not> equals cmd ''s''" "\<not> equals cmd ''stop''"
    "\<not> equals cmd ''x''" "\<not> equals cmd ''forward''" "\<not> equals cmd ''f''"
    "\<not> equals cmd ''reverse''" "\<not> equals cmd ''r''" "\<not> equals cmd ''status''"
    "\<not> equals cmd ''?''" "\<not> equals cmd ''help''" "\<not> equals cmd ''h''"
    "\<not> equals cmd ''fault''"
    by (simp_all add: commandWords_spi_def equals_def c_str_no_NUL)
  with assms(2) show ?thesis
    by (simp add: processCommand_spi_def unknownCommand_def)
qed

lemma unknown_stepdir:
  assumes "c_str cmd \<notin> set commandWords_stepdir" and "\<not> startsWith cmd ''speed ''"
  shows "processCommand_stepdir p cmd s = unknownCommand s"
proof -
  from assms(1) have "\<not> equals cmd ''start''" "\<not> equals cmd ''s''" "\<not> equals cmd ''stop''"
    "\<not> equals cmd ''x''" "\<not> equals cmd ''forward''" "\<not> equals cmd ''f''"
    "\<not> equals cmd ''reverse''" "\<not> equals cmd ''r''" "\<not> equals cmd ''status''"
    "\<not> equals cmd ''?''" "\<not> equals cmd ''help''" "\<not> equals cmd ''h''"
    "\<not> equals cmd ''enable''" "\<not> equals cmd ''disable''"
    by (simp_all add: commandWords_stepdir_def equals_def c_str_no_NUL)
  with assms(2) show ?thesis
    by (simp add: processCommand_stepdir_def unknownCommand_def)
qed

text \<open>Every other branch prints something else first.\<close>

lemma serialOut_neq: "serialOut a \<noteq> serialOut b \<Longrightarrow> a \<noteq> b"
  by auto

lemma words_recognised_spi:
  "list_all (\<lambda>c. serialOut (processCommand_spi p f c s) \<noteq> serialOut (unknownCommand s))
     commandWords_spi"
  by (simp add: commandWords_spi_def processCommand_spi_def unknownCommand_def startsWith_def
      equals_def c_str_def printStatus_spi_def printHelp_spi_def printDriverStatus_def)

lemma words_recognised_stepdir:
  "list_all (\<lambda>c. serialOut (processCommand_stepdir p c s) \<noteq> serialOut (unknownCommand s))
     commandWords_stepdir"
  by (simp add: commandWords_stepdir_def processCommand_stepdir_def unknownCommand_def
      startsWith_def equals_def c_str_def printStatus_stepdir_def printHelp_stepdir_def)

lemma word_recognised_spi:
  assumes "c_str cmd \<in> set commandWords_spi"
  shows "serialOut (processCommand_spi p f cmd s) \<noteq> serialOut (unknownCommand s)"
proof -
  from assms words_recognised_spi [of p f s]
  have "serialOut (processCommand_spi p f (c_str cmd) s) \<noteq> serialOut (unknownCommand s)"
    by (simp add: list_all_iff)
  then show ?thesis
    by (simp add: processCommand_spi_c_str)
qed

lemma word_recognised_stepdir:
  assumes "c_str cmd \<in> set commandWords_stepdir"
  shows "serialOut (processCommand_stepdir p cmd s) \<noteq> serialOut (unknownCommand s)"
proof -
  from assms words_recognised_stepdir [of p s]
  have "serialOut (processCommand_stepdir p (c_str cmd) s) \<noteq> serialOut (unknownCommand s)"
    by (simp add: list_all_iff)
  then show ?thesis
    by (simp add: processCommand_stepdir_c_str)
qed

lemma speed_recognised_spi:
  "startsWith cmd ''speed '' \<Longrightarrow>
   serialOut (processCommand_spi p f cmd s) \<noteq> serialOut (unknownCommand s)"
  by (simp add: speed_branch_spi unknownCommand_def)

lemma speed_recognised_stepdir:
  "startsWith cmd ''speed '' \<Longrightarrow>
   serialOut (processCommand_stepdir p cmd s) \<noteq> serialOut (unknownCommand s)"
  by (simp add: speed_branch_stepdir unknownCommand_def)

section \<open>Numbers\<close>

lemma atol_nonNumeric: "nonNumeric arg \<Longrightarrow> atol arg = 0"
proof (cases "dropWhile isspace arg")
  case Nil
  show ?thesis unfolding atol_def Nil by simp
next
  case (Cons c cs)
  assume "nonNumeric arg"
  then show ?thesis unfolding atol_def nonNumeric_def Cons
    by (cases cs) (auto simp add: isdigit_def split: if_splits)
qed

lemma toInt_boards_nonNumeric:
  "nonNumeric arg \<Longrightarrow> toInt avr_board arg = 0 \<and> toInt arm_board arg = 0"
  by (simp add: atol_nonNumeric avr_board_def arm_board_def)

lemma newSpeed_zero: "toInt p (substring cmd 6) = 0 \<Longrightarrow> newSpeed p cmd = 0"
  by (simp add: newSpeed_def to_int_def)

lemma newSpeed_wide:
  assumes "0 < int_bits p" and "- (2 ^ (int_bits p - 1)) \<le> toInt p (substring cmd 6)"
    and "toInt p (substring cmd 6) < 2 ^ (int_bits p - 1)"
  shows "newSpeed p cmd = toInt p (substring cmd 6)"
  using assms by (simp add: newSpeed_def to_int_def signed_take_bit_int_eq_self)

text \<open>
  The narrowing to \<open>int\<close> shows on a board with a 16-bit \<open>int\<close>: 40000 does not fit and
  becomes negative, 65636 becomes 100. On the 32-bit board both stay what was typed.
\<close>

lemma narrowing_to_int:
  "newSpeed avr_board ''speed 40000'' = - 25536 \<and> newSpeed avr_board ''speed 65636'' = 100
   \<and> newSpeed arm_board ''speed 40000'' = 40000 \<and> newSpeed arm_board ''speed 65636'' = 65636"
  by code_simp

lemma uint_period: "100 \<le> n \<Longrightarrow> n \<le> 50000 \<Longrightarrow> uint (word_of_int n :: 16 word) = n"
  by (simp add: uint_word_of_int take_bit_int_eq_self)

section \<open>\<open>setup\<close>\<close>

lemma waitForSerial_ready:
  "k \<le> n \<Longrightarrow> ready n \<Longrightarrow> waitForSerial ready k = Some ()"
proof (induction "n - k" arbitrary: k)
  case 0
  then show ?case by (simp add: waitForSerial.simps)
next
  case (Suc d)
  then have "Suc k \<le> n" and "d = n - Suc k" by simp_all
  with Suc have "waitForSerial ready (Suc k) = Some ()" by blast
  then show ?case by (subst waitForSerial.simps) simp
qed

lemma setup_spi_returns: "ready n \<Longrightarrow> setup_spi ready f s \<noteq> None"
  by (simp add: setup_spi_def waitForSerial_ready [of 0 n])

lemma setup_stepdir_returns: "ready n \<Longrightarrow> setup_stepdir ready s \<noteq> None"
  by (simp add: setup_stepdir_def waitForSerial_ready [of 0 n])

lemma setup_spi_fields:
  assumes "setup_spi ready f s = Some s'"
  shows "motorRunning s' = motorRunning s" "motorDirection s' = motorDirection s"
    "stepPeriodUs s' = stepPeriodUs s" "lastStepTime s' = lastStepTime s"
  using assms by (auto simp add: setup_spi_def split: option.splits)

lemma setup_stepdir_fields:
  assumes "setup_stepdir ready s = Some s'"
  shows "motorRunning s' = motorRunning s" "motorDirection s' = motorDirection s"
    "stepPeriodUs s' = stepPeriodUs s" "lastStepTime s' = lastStepTime s"
  using assms by (auto simp add: setup_stepdir_def split: option.splits)

lemma lastWrite_append:
  "lastWrite pin (xs @ ys) =
     (case lastWrite pin ys of Some v \<Rightarrow> Some v | None \<Rightarrow> lastWrite pin xs)"
  by (induction xs) (simp_all split: option.splits)

lemma setup_stepdir_enable_pin:
  assumes "setup_stepdir ready s = Some s'"
  shows "lastWrite ENABLE_PIN (hwLog s') = Some HIGH"
  using assms by (auto simp add: setup_stepdir_def lastWrite_append split: option.splits)

section \<open>\<open>loop\<close>\<close>

lemma stepsIssued_handleSerial_spi:
  "stepsIssued_spi (handleSerial_spi p i s) = stepsIssued_spi s"
  by (simp add: stepsIssued_spi_def handleSerial_spi_def hwLog_processCommand_spi
      split: option.splits)

lemma stepsIssued_handleSerial_stepdir:
  "stepsIssued_stepdir (handleSerial_stepdir p i s) = stepsIssued_stepdir s"
  by (simp add: stepsIssued_stepdir_def handleSerial_stepdir_def hwLog_processCommand_stepdir
      STEP_PIN_def DIR_PIN_def ENABLE_PIN_def HIGH_def LOW_def split: option.splits)

lemma lastStepTime_handleSerial_spi:
  "lastStepTime (handleSerial_spi p i s) = lastStepTime s"
  by (simp add: handleSerial_spi_def lastStepTime_processCommand_spi split: option.splits)

lemma lastStepTime_handleSerial_stepdir:
  "lastStepTime (handleSerial_stepdir p i s) = lastStepTime s"
  by (simp add: handleSerial_stepdir_def lastStepTime_processCommand_stepdir split: option.splits)

lemma stepMotor_spi_eq:
  "stepMotor_spi i s =
     (if stepDue i s then s\<lparr>hwLog := hwLog s @ [SdStep], lastStepTime := microsNow i\<rparr> else s)"
  by (simp add: stepMotor_spi_def stepDue_def hw_def Let_def)

lemma stepMotor_stepdir_eq:
  "stepMotor_stepdir i s =
     (if stepDue i s
      then s\<lparr>hwLog := hwLog s @
               [DigitalWrite STEP_PIN HIGH, DelayMicroseconds 6, DigitalWrite STEP_PIN LOW],
             lastStepTime := microsNow i\<rparr>
      else s)"
  by (simp add: stepMotor_stepdir_def stepDue_def hw_def digitalWrite_def Let_def)

lemma fault_spi: "processCommand_spi p f ''fault'' s = printDriverStatus f s"
  by (simp add: processCommand_spi_def startsWith_def equals_def c_str_def)

lemma fault_stepdir: "processCommand_stepdir p ''fault'' s = unknownCommand s"
  by (simp add: processCommand_stepdir_def startsWith_def unknownCommand_def equals_def c_str_def)

text \<open>The period changes in the speed branch only.\<close>

lemma stepPeriodUs_stepMotor_spi: "stepPeriodUs (stepMotor_spi i s) = stepPeriodUs s"
  by (simp add: stepMotor_spi_eq)

lemma stepPeriodUs_stepMotor_stepdir: "stepPeriodUs (stepMotor_stepdir i s) = stepPeriodUs s"
  by (simp add: stepMotor_stepdir_eq)

lemma stepPeriodUs_loop_spi:
  "stepPeriodUs (loop_spi p i s) =
     (case assignedPeriod p i of Some n \<Rightarrow> word_of_int n | None \<Rightarrow> stepPeriodUs s)"
  by (simp add: loop_spi_def stepPeriodUs_stepMotor_spi handleSerial_spi_def assignedPeriod_def
      stepPeriodUs_processCommand_spi split: option.splits)

lemma stepPeriodUs_loop_stepdir:
  "stepPeriodUs (loop_stepdir p i s) =
     (case assignedPeriod p i of Some n \<Rightarrow> word_of_int n | None \<Rightarrow> stepPeriodUs s)"
  by (simp add: loop_stepdir_def stepPeriodUs_stepMotor_stepdir handleSerial_stepdir_def
      assignedPeriod_def stepPeriodUs_processCommand_stepdir split: option.splits)

lemma assignedPeriod_range: "assignedPeriod p i = Some n \<Longrightarrow> 100 \<le> n \<and> n \<le> 50000"
  by (auto simp add: assignedPeriod_def split: option.splits if_splits)

text \<open>The period after a run, from any state: the latest value assigned, or the old period.\<close>

lemma period_after_run_spi:
  "uint (stepPeriodUs (run_spi p is s)) =
     (case List.map_filter (assignedPeriod p) is of
        [] \<Rightarrow> uint (stepPeriodUs s)
      | n # ns \<Rightarrow> last (n # ns))"
proof (induction "is" arbitrary: s)
  case Nil
  then show ?case by simp
next
  case (Cons i "is")
  show ?case
  proof (cases "assignedPeriod p i")
    case None
    then show ?thesis
      using Cons.IH [of "loop_spi p i s"]
      by (simp add: stepPeriodUs_loop_spi split: list.splits)
  next
    case (Some n)
    then have "uint (stepPeriodUs (loop_spi p i s)) = n"
      using assignedPeriod_range [OF Some] by (simp add: stepPeriodUs_loop_spi uint_period)
    with Some show ?thesis
      using Cons.IH [of "loop_spi p i s"]
      by (simp split: list.splits)
  qed
qed

lemma period_after_run_stepdir:
  "uint (stepPeriodUs (run_stepdir p is s)) =
     (case List.map_filter (assignedPeriod p) is of
        [] \<Rightarrow> uint (stepPeriodUs s)
      | n # ns \<Rightarrow> last (n # ns))"
proof (induction "is" arbitrary: s)
  case Nil
  then show ?case by simp
next
  case (Cons i "is")
  show ?case
  proof (cases "assignedPeriod p i")
    case None
    then show ?thesis
      using Cons.IH [of "loop_stepdir p i s"]
      by (simp add: stepPeriodUs_loop_stepdir split: list.splits)
  next
    case (Some n)
    then have "uint (stepPeriodUs (loop_stepdir p i s)) = n"
      using assignedPeriod_range [OF Some] by (simp add: stepPeriodUs_loop_stepdir uint_period)
    with Some show ?thesis
      using Cons.IH [of "loop_stepdir p i s"]
      by (simp split: list.splits)
  qed
qed

text \<open>A stopped motor stays stopped, and takes no step, while no pass carries \<open>start\<close>.\<close>

lemma stays_stopped_spi:
  assumes "\<not> motorRunning s" and "\<not> carries i [''start'', ''s'']"
  shows "\<not> motorRunning (loop_spi p i s) \<and> stepsIssued_spi (loop_spi p i s) = stepsIssued_spi s"
proof -
  from assms have h: "\<not> motorRunning (handleSerial_spi p i s)"
    by (auto simp add: handleSerial_spi_def carries_def motorRunning_processCommand_spi
        equals_def c_str_no_NUL split: option.splits)
  then have "loop_spi p i s = handleSerial_spi p i s"
    by (simp add: loop_spi_def stepMotor_spi_def)
  with h show ?thesis
    by (simp add: stepsIssued_handleSerial_spi)
qed

lemma stays_stopped_stepdir:
  assumes "\<not> motorRunning s" and "\<not> carries i [''start'', ''s'']"
  shows "\<not> motorRunning (loop_stepdir p i s) \<and>
    stepsIssued_stepdir (loop_stepdir p i s) = stepsIssued_stepdir s"
proof -
  from assms have h: "\<not> motorRunning (handleSerial_stepdir p i s)"
    by (auto simp add: handleSerial_stepdir_def carries_def motorRunning_processCommand_stepdir
        equals_def c_str_no_NUL split: option.splits)
  then have "loop_stepdir p i s = handleSerial_stepdir p i s"
    by (simp add: loop_stepdir_def stepMotor_stepdir_def)
  with h show ?thesis
    by (simp add: stepsIssued_handleSerial_stepdir)
qed

lemma run_stays_stopped_spi:
  "\<not> motorRunning s \<Longrightarrow> list_all (\<lambda>i. \<not> carries i [''start'', ''s'']) is \<Longrightarrow>
   \<not> motorRunning (run_spi p is s) \<and> stepsIssued_spi (run_spi p is s) = stepsIssued_spi s"
proof (induction "is" arbitrary: s)
  case Nil
  then show ?case by simp
next
  case (Cons i "is")
  from Cons.prems have "\<not> carries i [''start'', ''s'']"
    and rest: "list_all (\<lambda>i. \<not> carries i [''start'', ''s'']) is"
    by simp_all
  with Cons.prems(1) have one: "\<not> motorRunning (loop_spi p i s)"
    "stepsIssued_spi (loop_spi p i s) = stepsIssued_spi s"
    using stays_stopped_spi by blast+
  from Cons.IH [OF one(1) rest] one(2) show ?case by simp
qed

lemma run_stays_stopped_stepdir:
  "\<not> motorRunning s \<Longrightarrow> list_all (\<lambda>i. \<not> carries i [''start'', ''s'']) is \<Longrightarrow>
   \<not> motorRunning (run_stepdir p is s) \<and>
   stepsIssued_stepdir (run_stepdir p is s) = stepsIssued_stepdir s"
proof (induction "is" arbitrary: s)
  case Nil
  then show ?case by simp
next
  case (Cons i "is")
  from Cons.prems have "\<not> carries i [''start'', ''s'']"
    and rest: "list_all (\<lambda>i. \<not> carries i [''start'', ''s'']) is"
    by simp_all
  with Cons.prems(1) have one: "\<not> motorRunning (loop_stepdir p i s)"
    "stepsIssued_stepdir (loop_stepdir p i s) = stepsIssued_stepdir s"
    using stays_stopped_stepdir by blast+
  from Cons.IH [OF one(1) rest] one(2) show ?case by simp
qed

lemma stop_pass_spi:
  assumes "carries i [''stop'', ''x'']"
  shows "\<not> motorRunning (loop_spi p i s) \<and> stepsIssued_spi (loop_spi p i s) = stepsIssued_spi s"
proof -
  from assms have h: "\<not> motorRunning (handleSerial_spi p i s)"
    by (auto simp add: handleSerial_spi_def carries_def motorRunning_processCommand_spi
        equals_def c_str_no_NUL split: option.splits)
  then have "loop_spi p i s = handleSerial_spi p i s"
    by (simp add: loop_spi_def stepMotor_spi_def)
  with h show ?thesis
    by (simp add: stepsIssued_handleSerial_spi)
qed

lemma stop_pass_stepdir:
  assumes "carries i [''stop'', ''x'']"
  shows "\<not> motorRunning (loop_stepdir p i s) \<and>
    stepsIssued_stepdir (loop_stepdir p i s) = stepsIssued_stepdir s"
proof -
  from assms have h: "\<not> motorRunning (handleSerial_stepdir p i s)"
    by (auto simp add: handleSerial_stepdir_def carries_def motorRunning_processCommand_stepdir
        equals_def c_str_no_NUL split: option.splits)
  then have "loop_stepdir p i s = handleSerial_stepdir p i s"
    by (simp add: loop_stepdir_def stepMotor_stepdir_def)
  with h show ?thesis
    by (simp add: stepsIssued_handleSerial_stepdir)
qed

text \<open>The sketches step together on the control state, on every line but \<open>disable\<close>.\<close>

lemma control_stepMotor_spi: "control_spi (stepMotor_spi i s) = control_spi s"
  by (simp add: stepMotor_spi_eq control_spi_def)

lemma control_stepMotor_stepdir: "control_stepdir (stepMotor_stepdir i s) = control_stepdir s"
  by (simp add: stepMotor_stepdir_eq control_stepdir_def)

lemma processCommand_agree:
  assumes "control_spi s = control_stepdir t" and "\<not> equals cmd ''disable''"
  shows "control_spi (processCommand_spi p f cmd s) =
         control_stepdir (processCommand_stepdir p cmd t)"
proof -
  from assms(1) have m: "motorRunning s = motorRunning t"
    and d: "(motorDirection s \<noteq> 0) = motorDirection t"
    and u: "stepPeriodUs s = stepPeriodUs t"
    by (simp_all add: control_spi_def control_stepdir_def)
  have "motorRunning (processCommand_spi p f cmd s) =
      motorRunning (processCommand_stepdir p cmd t)"
    using m assms(2)
    by (simp add: motorRunning_processCommand_spi motorRunning_processCommand_stepdir)
  moreover have "(motorDirection (processCommand_spi p f cmd s) \<noteq> 0) =
      motorDirection (processCommand_stepdir p cmd t)"
    using d
    by (simp add: motorDirection_processCommand_spi motorDirection_processCommand_stepdir)
  moreover have "stepPeriodUs (processCommand_spi p f cmd s) =
      stepPeriodUs (processCommand_stepdir p cmd t)"
    using u
    by (simp add: stepPeriodUs_processCommand_spi stepPeriodUs_processCommand_stepdir)
  ultimately show ?thesis
    by (simp add: control_spi_def control_stepdir_def)
qed

lemma loop_agree:
  assumes "control_spi s = control_stepdir t" and "\<not> carries i [''disable'']"
  shows "control_spi (loop_spi p i s) = control_stepdir (loop_stepdir p i t)"
proof (cases "serialLine i")
  case None
  with assms(1) show ?thesis
    by (simp add: loop_spi_def loop_stepdir_def handleSerial_spi_def handleSerial_stepdir_def
        control_stepMotor_spi control_stepMotor_stepdir)
next
  case (Some l)
  with assms(2) have "\<not> equals (toLowerCase (trim l)) ''disable''"
    by (simp add: carries_def)
  from processCommand_agree [OF assms(1) this] Some show ?thesis
    by (simp add: loop_spi_def loop_stepdir_def handleSerial_spi_def handleSerial_stepdir_def
        control_stepMotor_spi control_stepMotor_stepdir)
qed

lemma run_agree:
  "control_spi s = control_stepdir t \<Longrightarrow> list_all (\<lambda>i. \<not> carries i [''disable'']) is \<Longrightarrow>
   control_spi (run_spi p is s) = control_stepdir (run_stepdir p is t)"
proof (induction "is" arbitrary: s t)
  case Nil
  then show ?case by simp
next
  case (Cons i "is")
  from Cons.prems have "\<not> carries i [''disable'']"
    and rest: "list_all (\<lambda>i. \<not> carries i [''disable'']) is"
    by simp_all
  from loop_agree [OF Cons.prems(1) this(1)]
  have "control_spi (loop_spi p i s) = control_stepdir (loop_stepdir p i t)" .
  from Cons.IH [OF this rest] show ?case by simp
qed

section \<open>Trimming and lowercasing\<close>

lemma not_isspace_from:
  assumes "33 \<le> (of_char x :: nat)"
  shows "\<not> isspace x"
proof -
  have "x \<noteq> CHR '' ''"
  proof
    assume "x = CHR '' ''"
    then have "(of_char x :: nat) = 32" by simp
    with assms show False by simp
  qed
  with assms show ?thesis by (simp add: isspace_def)
qed

lemma not_NUL_from:
  assumes "1 \<le> (of_char x :: nat)"
  shows "x \<noteq> CHR 0x00"
proof
  assume "x = CHR 0x00"
  then have "(of_char x :: nat) = 0" by simp
  with assms show False by simp
qed

lemma not_isspace_NUL [simp]: "\<not> isspace (CHR 0x00)"
  by (simp add: isspace_def)

lemma isspace_tolower [simp]: "isspace (tolower c) = isspace c"
proof (cases "isupper c")
  case False
  then show ?thesis by (simp add: tolower_def)
next
  case True
  then have r: "65 \<le> (of_char c :: nat)" "(of_char c :: nat) \<le> 90"
    by (simp_all add: isupper_def)
  then have "(of_char (char_of ((of_char c :: nat) + 32) :: char) :: nat) = of_char c + 32"
    by simp
  with r have a: "\<not> isspace (char_of ((of_char c :: nat) + 32))"
    by (intro not_isspace_from) simp
  from r have b: "\<not> isspace c"
    by (intro not_isspace_from) simp
  from a b True show ?thesis by (simp add: tolower_def)
qed

lemma tolower_NUL [simp]: "(tolower c = CHR 0x00) = (c = CHR 0x00)"
proof (cases "isupper c")
  case False
  then show ?thesis by (simp add: tolower_def)
next
  case True
  then have r: "65 \<le> (of_char c :: nat)" "(of_char c :: nat) \<le> 90"
    by (simp_all add: isupper_def)
  then have "(of_char (char_of ((of_char c :: nat) + 32) :: char) :: nat) = of_char c + 32"
    by simp
  with r have a: "char_of ((of_char c :: nat) + 32) \<noteq> CHR 0x00"
    by (intro not_NUL_from) simp
  from r have b: "c \<noteq> CHR 0x00"
    by (intro not_NUL_from) simp
  from a b True show ?thesis by (simp add: tolower_def)
qed

text \<open>\<open>toLowerCase\<close> as the loop over the buffer that it is.\<close>

lemma toLowerCase_Nil [simp]: "toLowerCase [] = []"
  by (simp add: toLowerCase_def c_str_def)

lemma toLowerCase_Cons:
  "toLowerCase (c # cs) = (if c = CHR 0x00 then c # cs else tolower c # toLowerCase cs)"
  by (simp add: toLowerCase_def c_str_def)

lemma c_str_toLowerCase: "c_str (toLowerCase s) = map tolower (c_str s)"
  by (induction s) (simp_all add: toLowerCase_Cons, simp_all add: c_str_def)

lemma c_str_map_tolower: "c_str (map tolower s) = map tolower (c_str s)"
  by (induction s) (simp_all add: c_str_def)

lemma list_all_isspace_toLowerCase: "list_all isspace (toLowerCase s) = list_all isspace s"
  by (induction s) (simp_all add: toLowerCase_Cons)

lemma dropWhile_isspace_toLowerCase:
  "dropWhile isspace (toLowerCase s) = toLowerCase (dropWhile isspace s)"
  by (induction s) (simp_all add: toLowerCase_Cons)

text \<open>Dropping the white space at the end, from the front of the list.\<close>

lemma drop_trailing_snoc:
  "rev (dropWhile P (rev cs @ [c])) =
     (if P c \<and> list_all P cs then [] else c # rev (dropWhile P (rev cs)))"
proof (cases "list_all P cs")
  case True
  then have "dropWhile P (rev cs @ [c]) = dropWhile P [c]"
    by (intro dropWhile_append2) (simp add: list_all_iff)
  moreover from True have "dropWhile P (rev cs) = []"
    by (simp add: list_all_iff)
  ultimately show ?thesis using True by simp
next
  case False
  then obtain x where "x \<in> set (rev cs)" "\<not> P x"
    by (auto simp add: list_all_iff)
  then have "dropWhile P (rev cs @ [c]) = dropWhile P (rev cs) @ [c]"
    by (intro dropWhile_append1)
  with False show ?thesis by simp
qed

lemma drop_trailing_toLowerCase:
  "rev (dropWhile isspace (rev (toLowerCase s))) =
   toLowerCase (rev (dropWhile isspace (rev s)))"
proof (induction s)
  case Nil
  then show ?case by simp
next
  case (Cons c cs)
  show ?case
  proof (cases "c = CHR 0x00")
    case True
    then show ?thesis
      by (simp add: toLowerCase_Cons drop_trailing_snoc)
  next
    case False
    with Cons.IH show ?thesis
      by (simp add: toLowerCase_Cons drop_trailing_snoc list_all_isspace_toLowerCase)
  qed
qed

lemma toLowerCase_trim: "toLowerCase (trim l) = trim (toLowerCase l)"
  by (simp add: trim_def dropWhile_isspace_toLowerCase drop_trailing_toLowerCase)

lemma map_tolower_trim: "map tolower (trim l) = trim (map tolower l)"
  by (simp add: trim_def rev_map dropWhile_map comp_def)

lemma normalise_case:
  "toLowerCase l1 = toLowerCase l2 \<Longrightarrow> toLowerCase (trim l1) = toLowerCase (trim l2)"
  by (simp add: toLowerCase_trim)

lemma normalise_letters:
  assumes "map tolower l1 = map tolower l2"
  shows "c_str (toLowerCase (trim l1)) = c_str (toLowerCase (trim l2))"
proof -
  have "c_str (toLowerCase (trim l)) = c_str (trim (map tolower l))" for l
    by (simp add: c_str_toLowerCase c_str_map_tolower [symmetric] map_tolower_trim)
  with assms show ?thesis by simp
qed

lemma trim_surrounded:
  assumes "list_all isspace a" and "list_all isspace b"
  shows "trim (a @ l @ b) = trim l"
proof -
  from assms(1) have 1: "dropWhile isspace (a @ l @ b) = dropWhile isspace (l @ b)"
    by (simp add: list_all_iff dropWhile_append2)
  show ?thesis
  proof (cases "list_all isspace l")
    case True
    with assms(2) have e: "dropWhile isspace (l @ b) = []" "dropWhile isspace l = []"
      by (auto simp add: list_all_iff)
    show ?thesis unfolding trim_def 1 e by simp
  next
    case False
    then obtain x where x: "x \<in> set l" "\<not> isspace x"
      by (auto simp add: list_all_iff)
    then have 2: "dropWhile isspace (l @ b) = dropWhile isspace l @ b"
      by (simp add: dropWhile_append1)
    from assms(2) have "dropWhile isspace (rev b @ rev (dropWhile isspace l)) =
        dropWhile isspace (rev (dropWhile isspace l))"
      by (intro dropWhile_append2) (simp add: list_all_iff)
    with 1 2 show ?thesis by (simp add: trim_def)
  qed
qed

lemma normalise_surrounded:
  "list_all isspace a \<Longrightarrow> list_all isspace b \<Longrightarrow>
   toLowerCase (trim (a @ l @ b)) = toLowerCase (trim l)"
  by (simp add: trim_surrounded)

lemma loop_spi_line:
  "loop_spi p (i\<lparr>serialLine := Some l\<rparr>) s =
   stepMotor_spi i (processCommand_spi p (faultReg i) (toLowerCase (trim l)) s)"
  by (simp add: loop_spi_def handleSerial_spi_def stepMotor_spi_def)

lemma loop_stepdir_line:
  "loop_stepdir p (i\<lparr>serialLine := Some l\<rparr>) s =
   stepMotor_stepdir i (processCommand_stepdir p (toLowerCase (trim l)) s)"
  by (simp add: loop_stepdir_def handleSerial_stepdir_def stepMotor_stepdir_def)

text \<open>A pass of \<open>loop\<close> reads its line trimmed, lowercased and as a C string.\<close>

lemma loop_spi_c_str:
  assumes "c_str (toLowerCase (trim l1)) = c_str (toLowerCase (trim l2))"
  shows "loop_spi p (i\<lparr>serialLine := Some l1\<rparr>) s = loop_spi p (i\<lparr>serialLine := Some l2\<rparr>) s"
proof -
  have "processCommand_spi p (faultReg i) (toLowerCase (trim l1)) s =
      processCommand_spi p (faultReg i) (c_str (toLowerCase (trim l1))) s"
    by (simp only: processCommand_spi_c_str)
  also have "\<dots> = processCommand_spi p (faultReg i) (toLowerCase (trim l2)) s"
    by (simp only: assms processCommand_spi_c_str)
  finally show ?thesis
    by (simp only: loop_spi_line)
qed

lemma loop_stepdir_c_str:
  assumes "c_str (toLowerCase (trim l1)) = c_str (toLowerCase (trim l2))"
  shows "loop_stepdir p (i\<lparr>serialLine := Some l1\<rparr>) s =
    loop_stepdir p (i\<lparr>serialLine := Some l2\<rparr>) s"
proof -
  have "processCommand_stepdir p (toLowerCase (trim l1)) s =
      processCommand_stepdir p (c_str (toLowerCase (trim l1))) s"
    by (simp only: processCommand_stepdir_c_str)
  also have "\<dots> = processCommand_stepdir p (toLowerCase (trim l2)) s"
    by (simp only: assms processCommand_stepdir_c_str)
  finally show ?thesis
    by (simp only: loop_stepdir_line)
qed

section \<open>The speed branch, in terms of \<open>newSpeed\<close>\<close>

text \<open>
  What the speed branch does with the \<open>int\<close> it tests: in range, that value becomes the
  period and is reported; out of range, the error message and nothing else. An
  argument without a number gives 0 on both boards. Where \<open>int\<close> holds the \<open>long\<close> that
  was parsed, the value tested is the number in the line.
\<close>

lemma speed_branch_effect:
  assumes "startsWith cmd ''speed ''"
  shows
    "(100 \<le> newSpeed p cmd \<and> newSpeed p cmd \<le> 50000 \<longrightarrow>
        uint (stepPeriodUs (processCommand_spi p f cmd s)) = newSpeed p cmd \<and>
        uint (stepPeriodUs (processCommand_stepdir p cmd t)) = newSpeed p cmd \<and>
        serialOut (processCommand_spi p f cmd s) = serialOut s @
          [Print ''Speed set to '', PrintU16 (word_of_int (newSpeed p cmd)),
           Println '' us (lower = faster)''] \<and>
        serialOut (processCommand_stepdir p cmd t) = serialOut t @
          [Print ''Speed set to '', PrintU16 (word_of_int (newSpeed p cmd)),
           Println '' us (lower = faster)''])
     \<and> (\<not> (100 \<le> newSpeed p cmd \<and> newSpeed p cmd \<le> 50000) \<longrightarrow>
        processCommand_spi p f cmd s =
          println ''ERROR: Speed must be between 100 and 50000'' s \<and>
        processCommand_stepdir p cmd t =
          println ''ERROR: Speed must be between 100 and 50000'' t \<and>
        stepPeriodUs (processCommand_spi p f cmd s) = stepPeriodUs s \<and>
        stepPeriodUs (processCommand_stepdir p cmd t) = stepPeriodUs t)
     \<and> (toInt p (substring cmd 6) = 0 \<longrightarrow> newSpeed p cmd = 0)
     \<and> (nonNumeric (substring cmd 6) \<longrightarrow>
        toInt avr_board (substring cmd 6) = 0 \<and> toInt arm_board (substring cmd 6) = 0)
     \<and> (0 < int_bits p \<and> - (2 ^ (int_bits p - 1)) \<le> toInt p (substring cmd 6) \<and>
        toInt p (substring cmd 6) < 2 ^ (int_bits p - 1) \<longrightarrow>
        newSpeed p cmd = toInt p (substring cmd 6))"
proof (intro conjI impI)
  assume r: "100 \<le> newSpeed p cmd \<and> newSpeed p cmd \<le> 50000"
  then have u: "uint (word_of_int (newSpeed p cmd) :: 16 word) = newSpeed p cmd"
    by (simp add: uint_period)
  from r u show "uint (stepPeriodUs (processCommand_spi p f cmd s)) = newSpeed p cmd"
    by (simp add: speed_branch_spi [OF assms])
  from r u show "uint (stepPeriodUs (processCommand_stepdir p cmd t)) = newSpeed p cmd"
    by (simp add: speed_branch_stepdir [OF assms])
  from r show "serialOut (processCommand_spi p f cmd s) = serialOut s @
          [Print ''Speed set to '', PrintU16 (word_of_int (newSpeed p cmd)),
           Println '' us (lower = faster)'']"
    by (simp add: speed_branch_spi [OF assms])
  from r show "serialOut (processCommand_stepdir p cmd t) = serialOut t @
          [Print ''Speed set to '', PrintU16 (word_of_int (newSpeed p cmd)),
           Println '' us (lower = faster)'']"
    by (simp add: speed_branch_stepdir [OF assms])
next
  assume r: "\<not> (100 \<le> newSpeed p cmd \<and> newSpeed p cmd \<le> 50000)"
  show e1: "processCommand_spi p f cmd s =
          println ''ERROR: Speed must be between 100 and 50000'' s"
    unfolding speed_branch_spi [OF assms] using r by (rule if_not_P)
  show e2: "processCommand_stepdir p cmd t =
          println ''ERROR: Speed must be between 100 and 50000'' t"
    unfolding speed_branch_stepdir [OF assms] using r by (rule if_not_P)
  show "stepPeriodUs (processCommand_spi p f cmd s) = stepPeriodUs s"
    by (simp add: e1)
  show "stepPeriodUs (processCommand_stepdir p cmd t) = stepPeriodUs t"
    by (simp add: e2)
next
  assume "toInt p (substring cmd 6) = 0"
  then show "newSpeed p cmd = 0" by (rule newSpeed_zero)
next
  assume n: "nonNumeric (substring cmd 6)"
  from toInt_boards_nonNumeric [OF n] show "toInt avr_board (substring cmd 6) = 0"
    and "toInt arm_board (substring cmd 6) = 0" by simp_all
next
  assume "0 < int_bits p \<and> - (2 ^ (int_bits p - 1)) \<le> toInt p (substring cmd 6) \<and>
        toInt p (substring cmd 6) < 2 ^ (int_bits p - 1)"
  then show "newSpeed p cmd = toInt p (substring cmd 6)"
    by (simp add: newSpeed_wide)
qed

text \<open>
  No ramp: after \<open>setup\<close> and any passes of \<open>loop\<close> the period is the value the latest
  accepted speed command assigned, and 2000 when there is none; one pass assigns once
  or not at all.
\<close>

lemma period_is_last_assigned:
  assumes "setup_spi ready f globals_spi = Some s0"
    and "setup_stepdir ready globals_stepdir = Some t0"
  shows "uint (stepPeriodUs (run_spi p is s0)) = lastAssigned p is
    \<and> uint (stepPeriodUs (run_stepdir p is t0)) = lastAssigned p is
    \<and> stepPeriodUs s0 = 2000 \<and> stepPeriodUs t0 = 2000
    \<and> stepPeriodUs (loop_spi p i s) =
        (case assignedPeriod p i of Some n \<Rightarrow> word_of_int n | None \<Rightarrow> stepPeriodUs s)
    \<and> stepPeriodUs (loop_stepdir p i t) =
        (case assignedPeriod p i of Some n \<Rightarrow> word_of_int n | None \<Rightarrow> stepPeriodUs t)"
proof -
  from setup_spi_fields(3) [OF assms(1)] have a: "stepPeriodUs s0 = 2000"
    by (simp add: globals_spi_def)
  from setup_stepdir_fields(3) [OF assms(2)] have b: "stepPeriodUs t0 = 2000"
    by (simp add: globals_stepdir_def)
  from a have c: "uint (stepPeriodUs (run_spi p is s0)) = lastAssigned p is"
    by (simp add: period_after_run_spi lastAssigned_def split: list.splits)
  from b have d: "uint (stepPeriodUs (run_stepdir p is t0)) = lastAssigned p is"
    by (simp add: period_after_run_stepdir lastAssigned_def split: list.splits)
  from a b c d show ?thesis
    by (simp add: stepPeriodUs_loop_spi stepPeriodUs_loop_stepdir)
qed

section \<open>The properties\<close>

text \<open>
  C1, as the code has it. The SPI sketch recognises every command of the interface list:
  \<open>fault\<close> runs \<open>printDriverStatus\<close>, which reads the driver's fault register. The
  STEP/DIR sketch has no fault command (it has no SPI link to read the fault register
  over; its help text lists \<open>enable\<close> and \<open>disable\<close> instead): there \<open>fault\<close> takes the
  unknown-command branch. Every command word of either sketch, and a speed command,
  is recognised by that sketch.
\<close>

theorem interface_commands:
  "processCommand_spi p f ''fault'' s = printDriverStatus f s
   \<and> processCommand_stepdir p ''fault'' t = unknownCommand t
   \<and> list_all (\<lambda>c. processCommand_spi p f c s \<noteq> unknownCommand s)
        (''speed 1000'' # commandWords_spi)
   \<and> list_all (\<lambda>c. processCommand_stepdir p c t \<noteq> unknownCommand t)
        (''speed 1000'' # commandWords_stepdir)"
proof -
  have sp: "startsWith ''speed 1000'' ''speed ''"
    by (simp add: startsWith_def)
  have "list_all (\<lambda>c. serialOut (processCommand_spi p f c s) \<noteq> serialOut (unknownCommand s))
        (''speed 1000'' # commandWords_spi)"
    using words_recognised_spi [of p f s] speed_recognised_spi [OF sp, of p f s]
    by simp
  then have a: "list_all (\<lambda>c. processCommand_spi p f c s \<noteq> unknownCommand s)
        (''speed 1000'' # commandWords_spi)"
    by (rule list.pred_mono_strong) (rule serialOut_neq)
  have "list_all (\<lambda>c. serialOut (processCommand_stepdir p c t) \<noteq> serialOut (unknownCommand t))
        (''speed 1000'' # commandWords_stepdir)"
    using words_recognised_stepdir [of p t] speed_recognised_stepdir [OF sp, of p t]
    by simp
  then have b: "list_all (\<lambda>c. processCommand_stepdir p c t \<noteq> unknownCommand t)
        (''speed 1000'' # commandWords_stepdir)"
    by (rule list.pred_mono_strong) (rule serialOut_neq)
  from a b fault_spi fault_stepdir show ?thesis by blast
qed

text \<open>
  C1 as stated fails on the STEP/DIR sketch: the line \<open>fault\<close> gets the unknown-command
  reply and no hardware is touched.
\<close>

theorem fault_unknown_in_stepdir:
  "processCommand_stepdir avr_board ''fault'' globals_stepdir = unknownCommand globals_stepdir
   \<and> serialOut (processCommand_stepdir avr_board ''fault'' globals_stepdir) =
       [Println ''Unknown command. Type 'help' for commands.'']
   \<and> hwLog (processCommand_stepdir avr_board ''fault'' globals_stepdir) = []"
  by code_simp

text \<open>
  C2, as the code has it. The command words are matched by \<open>==\<close> against the word,
  which reads the line as a C string: a line takes a word's branch when it is that
  word up to its first NUL byte, and so when it is the word as a whole if it holds no
  NUL byte. The speed command is matched by its first six characters (\<open>startsWith\<close>),
  whatever follows them; it changes neither \<open>motorRunning\<close> nor \<open>motorDirection\<close> and
  calls no hardware. A line that is neither takes the unknown-command branch, and the
  command words and the speed lines do not.
\<close>

theorem dispatch_equality_or_speed_prefix:
  "(c_str cmd \<notin> set commandWords_spi \<and> \<not> startsWith cmd ''speed '' \<longrightarrow>
      processCommand_spi p f cmd s = unknownCommand s)
   \<and> (c_str cmd \<in> set commandWords_spi \<or> startsWith cmd ''speed '' \<longrightarrow>
      processCommand_spi p f cmd s \<noteq> unknownCommand s)
   \<and> processCommand_spi p f cmd s = processCommand_spi p f (c_str cmd) s
   \<and> (startsWith cmd ''speed '' \<longrightarrow>
      motorRunning (processCommand_spi p f cmd s) = motorRunning s \<and>
      motorDirection (processCommand_spi p f cmd s) = motorDirection s \<and>
      hwLog (processCommand_spi p f cmd s) = hwLog s)
   \<and> (c_str cmd \<notin> set commandWords_stepdir \<and> \<not> startsWith cmd ''speed '' \<longrightarrow>
      processCommand_stepdir p cmd t = unknownCommand t)
   \<and> (c_str cmd \<in> set commandWords_stepdir \<or> startsWith cmd ''speed '' \<longrightarrow>
      processCommand_stepdir p cmd t \<noteq> unknownCommand t)
   \<and> processCommand_stepdir p cmd t = processCommand_stepdir p (c_str cmd) t
   \<and> (startsWith cmd ''speed '' \<longrightarrow>
      motorRunning (processCommand_stepdir p cmd t) = motorRunning t \<and>
      motorDirection (processCommand_stepdir p cmd t) = motorDirection t \<and>
      hwLog (processCommand_stepdir p cmd t) = hwLog t)
   \<and> (CHR 0x00 \<notin> set cmd \<longrightarrow> c_str cmd = cmd)"
proof (intro conjI impI)
  assume "c_str cmd \<notin> set commandWords_spi \<and> \<not> startsWith cmd ''speed ''"
  then show "processCommand_spi p f cmd s = unknownCommand s"
    by (simp add: unknown_spi)
next
  assume "c_str cmd \<in> set commandWords_spi \<or> startsWith cmd ''speed ''"
  then have "serialOut (processCommand_spi p f cmd s) \<noteq> serialOut (unknownCommand s)"
    using word_recognised_spi [of cmd p f s] speed_recognised_spi [of cmd p f s]
    by blast
  then show "processCommand_spi p f cmd s \<noteq> unknownCommand s"
    by (rule serialOut_neq)
next
  show "processCommand_spi p f cmd s = processCommand_spi p f (c_str cmd) s"
    by (simp only: processCommand_spi_c_str)
  show "processCommand_stepdir p cmd t = processCommand_stepdir p (c_str cmd) t"
    by (simp only: processCommand_stepdir_c_str)
next
  assume sp: "startsWith cmd ''speed ''"
  from sp show "motorRunning (processCommand_spi p f cmd s) = motorRunning s"
    and "motorDirection (processCommand_spi p f cmd s) = motorDirection s"
    and "hwLog (processCommand_spi p f cmd s) = hwLog s"
    by (simp_all add: speed_branch_spi)
  from sp show "motorRunning (processCommand_stepdir p cmd t) = motorRunning t"
    and "motorDirection (processCommand_stepdir p cmd t) = motorDirection t"
    and "hwLog (processCommand_stepdir p cmd t) = hwLog t"
    by (simp_all add: speed_branch_stepdir)
next
  assume "c_str cmd \<notin> set commandWords_stepdir \<and> \<not> startsWith cmd ''speed ''"
  then show "processCommand_stepdir p cmd t = unknownCommand t"
    by (simp add: unknown_stepdir)
next
  assume "c_str cmd \<in> set commandWords_stepdir \<or> startsWith cmd ''speed ''"
  then have "serialOut (processCommand_stepdir p cmd t) \<noteq> serialOut (unknownCommand t)"
    using word_recognised_stepdir [of cmd p t] speed_recognised_stepdir [of cmd p t]
    by blast
  then show "processCommand_stepdir p cmd t \<noteq> unknownCommand t"
    by (rule serialOut_neq)
next
  assume "CHR 0x00 \<notin> set cmd"
  then show "c_str cmd = cmd"
    by (rule c_str_no_NUL)
qed

theorem dispatch_equality_or_speed_prefix_witness:
  "c_str ''stop now'' \<notin> set commandWords_spi \<and> c_str ''stop now'' \<notin> set commandWords_stepdir
   \<and> \<not> startsWith ''stop now'' ''speed ''
   \<and> processCommand_spi avr_board 0 ''stop now'' globals_spi = unknownCommand globals_spi
   \<and> processCommand_stepdir avr_board ''stop now'' globals_stepdir = unknownCommand globals_stepdir
   \<and> startsWith ''speed 1000 or so'' ''speed ''
   \<and> processCommand_spi avr_board 0 ''speed 1000 or so'' globals_spi \<noteq> unknownCommand globals_spi
   \<and> processCommand_stepdir avr_board ''speed 1000 or so'' globals_stepdir \<noteq>
       unknownCommand globals_stepdir
   \<and> c_str (''start'' @ [CHR 0x00, CHR ''!'']) \<in> set commandWords_spi
   \<and> processCommand_spi avr_board 0 (''start'' @ [CHR 0x00, CHR ''!'']) globals_spi \<noteq>
       unknownCommand globals_spi
   \<and> CHR 0x00 \<notin> set ''stop now'' \<and> c_str ''stop now'' = ''stop now''"
proof -
  have a: "c_str ''stop now'' \<notin> set commandWords_spi"
    "c_str ''stop now'' \<notin> set commandWords_stepdir"
    "\<not> startsWith ''stop now'' ''speed ''" "startsWith ''speed 1000 or so'' ''speed ''"
    "c_str (''start'' @ [CHR 0x00, CHR ''!'']) \<in> set commandWords_spi"
    "CHR 0x00 \<notin> set ''stop now''"
    by code_simp+
  note u = dispatch_equality_or_speed_prefix
    [of "''stop now''" avr_board 0 globals_spi globals_stepdir]
  note v = dispatch_equality_or_speed_prefix
    [of "''speed 1000 or so''" avr_board 0 globals_spi globals_stepdir]
  note w = dispatch_equality_or_speed_prefix
    [of "''start'' @ [CHR 0x00, CHR ''!'']" avr_board 0 globals_spi globals_stepdir]
  from u a have 1: "processCommand_spi avr_board 0 ''stop now'' globals_spi =
      unknownCommand globals_spi"
    "processCommand_stepdir avr_board ''stop now'' globals_stepdir =
      unknownCommand globals_stepdir"
    "c_str ''stop now'' = ''stop now''"
    by blast+
  from v a have 2: "processCommand_spi avr_board 0 ''speed 1000 or so'' globals_spi \<noteq>
      unknownCommand globals_spi"
    "processCommand_stepdir avr_board ''speed 1000 or so'' globals_stepdir \<noteq>
      unknownCommand globals_stepdir"
    by blast+
  from w a have 3: "processCommand_spi avr_board 0 (''start'' @ [CHR 0x00, CHR ''!''])
      globals_spi \<noteq> unknownCommand globals_spi"
    by blast
  from a 1 2 3 show ?thesis by blast
qed

text \<open>
  C2 as stated fails: \<open>speed 1000 or so\<close> is none of the command words, yet it is not
  unknown; it sets the period to 1000 as \<open>speed 1000\<close> does, selected by its prefix.
  And the line \<open>start\<close>, a NUL byte, \<open>!\<close> is not the word \<open>start\<close>, yet it starts the
  motor as \<open>start\<close> does.
\<close>

theorem speed_selected_by_prefix:
  "''speed 1000 or so'' \<notin> set commandWords_spi
   \<and> processCommand_spi avr_board 0 ''speed 1000 or so'' globals_spi \<noteq> unknownCommand globals_spi
   \<and> stepPeriodUs (processCommand_spi avr_board 0 ''speed 1000 or so'' globals_spi) = 1000
   \<and> stepPeriodUs (processCommand_spi avr_board 0 ''speed 1000'' globals_spi) = 1000
   \<and> ''speed 1000 or so'' \<notin> set commandWords_stepdir
   \<and> processCommand_stepdir avr_board ''speed 1000 or so'' globals_stepdir \<noteq>
       unknownCommand globals_stepdir
   \<and> stepPeriodUs (processCommand_stepdir avr_board ''speed 1000 or so'' globals_stepdir) = 1000
   \<and> ''start'' @ [CHR 0x00, CHR ''!''] \<notin> set commandWords_spi
   \<and> processCommand_spi avr_board 0 (''start'' @ [CHR 0x00, CHR ''!'']) globals_spi =
       processCommand_spi avr_board 0 ''start'' globals_spi
   \<and> motorRunning (processCommand_spi avr_board 0 (''start'' @ [CHR 0x00, CHR ''!'']) globals_spi)"
  by code_simp

text \<open>
  C3. From control states that agree (running, direction read as forward or reverse,
  period), the two sketches reach control states that agree again, for every command
  line that does not match \<open>disable\<close>: the shared commands, \<open>fault\<close> and \<open>enable\<close> (which
  change no control variable in either sketch) and every unrecognised line. It holds
  for one call of \<open>processCommand\<close> and for any run of \<open>loop\<close> in which no pass carries
  \<open>disable\<close>. A line matches a word as the code's \<open>==\<close> decides it.
\<close>

theorem sketches_agree_on_control:
  assumes "control_spi s = control_stepdir t"
  shows "(\<not> equals cmd ''disable'' \<longrightarrow>
      control_spi (processCommand_spi p f cmd s) =
      control_stepdir (processCommand_stepdir p cmd t))
    \<and> (list_all (\<lambda>i. \<not> carries i [''disable'']) is \<longrightarrow>
      control_spi (run_spi p is s) = control_stepdir (run_stepdir p is t))"
  using assms processCommand_agree run_agree by blast

theorem sketches_agree_on_control_witness:
  "control_spi globals_spi = control_stepdir globals_stepdir
   \<and> control_spi (processCommand_spi avr_board 0 ''reverse'' globals_spi) = (False, True, 2000)
   \<and> control_stepdir (processCommand_stepdir avr_board ''reverse'' globals_stepdir) =
       (False, True, 2000)
   \<and> control_spi (run_spi avr_board
        [line_at ''speed 800'' 1000, line_at ''R'' 2000, line_at ''fault'' 3000,
         line_at ''start'' 4000, line_at ''enable'' 5000, idle_at 9000] globals_spi) =
       (True, True, 800)
   \<and> control_stepdir (run_stepdir avr_board
        [line_at ''speed 800'' 1000, line_at ''R'' 2000, line_at ''fault'' 3000,
         line_at ''start'' 4000, line_at ''enable'' 5000, idle_at 9000] globals_stepdir) =
       (True, True, 800)"
proof -
  have g: "control_spi globals_spi = control_stepdir globals_stepdir"
    by code_simp
  have n: "\<not> equals ''reverse'' ''disable''"
    by code_simp
  have l: "list_all (\<lambda>i. \<not> carries i [''disable''])
      [line_at ''speed 800'' 1000, line_at ''R'' 2000, line_at ''fault'' 3000,
       line_at ''start'' 4000, line_at ''enable'' 5000, idle_at 9000]"
    by code_simp
  have r: "control_spi (processCommand_spi avr_board 0 ''reverse'' globals_spi) =
      (False, True, 2000)"
    by code_simp
  have q: "control_spi (run_spi avr_board
        [line_at ''speed 800'' 1000, line_at ''R'' 2000, line_at ''fault'' 3000,
         line_at ''start'' 4000, line_at ''enable'' 5000, idle_at 9000] globals_spi) =
       (True, True, 800)"
    by code_simp
  note w = sketches_agree_on_control [OF g, of "''reverse''" avr_board 0
      "[line_at ''speed 800'' 1000, line_at ''R'' 2000, line_at ''fault'' 3000,
        line_at ''start'' 4000, line_at ''enable'' 5000, idle_at 9000]"]
  from w n have a: "control_spi (processCommand_spi avr_board 0 ''reverse'' globals_spi) =
      control_stepdir (processCommand_stepdir avr_board ''reverse'' globals_stepdir)"
    by blast
  from w l have b: "control_spi (run_spi avr_board
        [line_at ''speed 800'' 1000, line_at ''R'' 2000, line_at ''fault'' 3000,
         line_at ''start'' 4000, line_at ''enable'' 5000, idle_at 9000] globals_spi) =
      control_stepdir (run_stepdir avr_board
        [line_at ''speed 800'' 1000, line_at ''R'' 2000, line_at ''fault'' 3000,
         line_at ''start'' 4000, line_at ''enable'' 5000, idle_at 9000] globals_stepdir)"
    by blast
  from g r q a b show ?thesis by simp
qed

text \<open>
  C4. In every pass of \<open>loop\<close>, of either sketch, a step is issued exactly when, after
  the pass has processed its serial line, \<open>motorRunning\<close> is true and
  \<open>currentTime - lastStepTime\<close> (on \<open>unsigned long\<close>, so modulo \<open>2^32\<close>) is at least
  \<open>stepPeriodUs\<close>; then \<open>lastStepTime\<close> becomes \<open>currentTime\<close>, and otherwise it keeps
  its value. The step is one call of \<open>sd.step()\<close> in the SPI sketch and one pulse on
  the STEP pin in the STEP/DIR sketch; the count of steps grows by one or not at all.
\<close>

theorem step_iff_due:
  "loop_spi p i s =
     (if stepDue i (handleSerial_spi p i s)
      then (handleSerial_spi p i s)
             \<lparr>hwLog := hwLog (handleSerial_spi p i s) @ [SdStep], lastStepTime := microsNow i\<rparr>
      else handleSerial_spi p i s)
   \<and> stepsIssued_spi (loop_spi p i s) =
       stepsIssued_spi s + (if stepDue i (handleSerial_spi p i s) then 1 else 0)
   \<and> lastStepTime (loop_spi p i s) =
       (if stepDue i (handleSerial_spi p i s) then microsNow i else lastStepTime s)
   \<and> loop_stepdir p i t =
     (if stepDue i (handleSerial_stepdir p i t)
      then (handleSerial_stepdir p i t)
             \<lparr>hwLog := hwLog (handleSerial_stepdir p i t) @
               [DigitalWrite STEP_PIN HIGH, DelayMicroseconds 6, DigitalWrite STEP_PIN LOW],
              lastStepTime := microsNow i\<rparr>
      else handleSerial_stepdir p i t)
   \<and> stepsIssued_stepdir (loop_stepdir p i t) =
       stepsIssued_stepdir t + (if stepDue i (handleSerial_stepdir p i t) then 1 else 0)
   \<and> lastStepTime (loop_stepdir p i t) =
       (if stepDue i (handleSerial_stepdir p i t) then microsNow i else lastStepTime t)"
proof (intro conjI)
  show "loop_spi p i s =
     (if stepDue i (handleSerial_spi p i s)
      then (handleSerial_spi p i s)
             \<lparr>hwLog := hwLog (handleSerial_spi p i s) @ [SdStep], lastStepTime := microsNow i\<rparr>
      else handleSerial_spi p i s)"
    by (simp add: loop_spi_def stepMotor_spi_eq)
  show "stepsIssued_spi (loop_spi p i s) =
       stepsIssued_spi s + (if stepDue i (handleSerial_spi p i s) then 1 else 0)"
    using stepsIssued_handleSerial_spi [of p i s]
    by (simp add: loop_spi_def stepMotor_spi_eq stepsIssued_spi_def)
  show "lastStepTime (loop_spi p i s) =
       (if stepDue i (handleSerial_spi p i s) then microsNow i else lastStepTime s)"
    by (simp add: loop_spi_def stepMotor_spi_eq lastStepTime_handleSerial_spi)
  show "loop_stepdir p i t =
     (if stepDue i (handleSerial_stepdir p i t)
      then (handleSerial_stepdir p i t)
             \<lparr>hwLog := hwLog (handleSerial_stepdir p i t) @
               [DigitalWrite STEP_PIN HIGH, DelayMicroseconds 6, DigitalWrite STEP_PIN LOW],
              lastStepTime := microsNow i\<rparr>
      else handleSerial_stepdir p i t)"
    by (simp add: loop_stepdir_def stepMotor_stepdir_eq)
  show "stepsIssued_stepdir (loop_stepdir p i t) =
       stepsIssued_stepdir t + (if stepDue i (handleSerial_stepdir p i t) then 1 else 0)"
    using stepsIssued_handleSerial_stepdir [of p i t]
    by (simp add: loop_stepdir_def stepMotor_stepdir_eq stepsIssued_stepdir_def HIGH_def LOW_def)
  show "lastStepTime (loop_stepdir p i t) =
       (if stepDue i (handleSerial_stepdir p i t) then microsNow i else lastStepTime t)"
    by (simp add: loop_stepdir_def stepMotor_stepdir_eq lastStepTime_handleSerial_stepdir)
qed

theorem step_iff_due_witness:
  "stepDue (line_at '' Start'' 5000) (handleSerial_spi avr_board (line_at '' Start'' 5000) globals_spi)
   \<and> stepsIssued_spi (loop_spi avr_board (line_at '' Start'' 5000) globals_spi) = 1
   \<and> lastStepTime (loop_spi avr_board (line_at '' Start'' 5000) globals_spi) = 5000
   \<and> stepDue (line_at '' Start'' 5000)
        (handleSerial_stepdir avr_board (line_at '' Start'' 5000) globals_stepdir)
   \<and> stepsIssued_stepdir (loop_stepdir avr_board (line_at '' Start'' 5000) globals_stepdir) = 1
   \<and> lastStepTime (loop_stepdir avr_board (line_at '' Start'' 5000) globals_stepdir) = 5000"
proof -
  have d1: "stepDue (line_at '' Start'' 5000)
      (handleSerial_spi avr_board (line_at '' Start'' 5000) globals_spi)"
    by code_simp
  have d2: "stepDue (line_at '' Start'' 5000)
      (handleSerial_stepdir avr_board (line_at '' Start'' 5000) globals_stepdir)"
    by code_simp
  have z: "stepsIssued_spi globals_spi = 0" "stepsIssued_stepdir globals_stepdir = 0"
    by code_simp+
  have m: "microsNow (line_at '' Start'' 5000) = 5000"
    by (simp add: line_at_def)
  note w = step_iff_due [of avr_board "line_at '' Start'' 5000" globals_spi globals_stepdir]
  from w [THEN conjunct2, THEN conjunct1] d1 z
  have a: "stepsIssued_spi (loop_spi avr_board (line_at '' Start'' 5000) globals_spi) = 1"
    by simp
  from w [THEN conjunct2, THEN conjunct2, THEN conjunct1] d1 m
  have b: "lastStepTime (loop_spi avr_board (line_at '' Start'' 5000) globals_spi) = 5000"
    by simp
  from w [THEN conjunct2, THEN conjunct2, THEN conjunct2, THEN conjunct2, THEN conjunct1] d2 z
  have c: "stepsIssued_stepdir (loop_stepdir avr_board (line_at '' Start'' 5000) globals_stepdir) = 1"
    by simp
  from w [THEN conjunct2, THEN conjunct2, THEN conjunct2, THEN conjunct2, THEN conjunct2] d2 m
  have d: "lastStepTime (loop_stepdir avr_board (line_at '' Start'' 5000) globals_stepdir) = 5000"
    by simp
  from a b c d d1 d2 show ?thesis by blast
qed

text \<open>
  C5. \<open>stop\<close> and \<open>x\<close> set \<open>motorRunning\<close> to false. From any state, after a pass of
  \<open>loop\<close> that carries a stop command and any number of passes none of which carries
  \<open>start\<close> or \<open>s\<close>, \<open>motorRunning\<close> is false and the count of steps issued is what it
  was before the stop: no step in the stop's own pass, none after. The timer check
  changes nothing in a state where \<open>motorRunning\<close> is false.
\<close>

theorem stopped_until_start:
  assumes "carries i0 [''stop'', ''x'']"
    and "list_all (\<lambda>i. \<not> carries i [''start'', ''s'']) is"
  shows "\<not> motorRunning (processCommand_spi p f ''stop'' s)
    \<and> \<not> motorRunning (processCommand_spi p f ''x'' s)
    \<and> \<not> motorRunning (processCommand_stepdir p ''stop'' t)
    \<and> \<not> motorRunning (processCommand_stepdir p ''x'' t)
    \<and> \<not> motorRunning (run_spi p (i0 # is) s)
    \<and> stepsIssued_spi (run_spi p (i0 # is) s) = stepsIssued_spi s
    \<and> \<not> motorRunning (run_stepdir p (i0 # is) t)
    \<and> stepsIssued_stepdir (run_stepdir p (i0 # is) t) = stepsIssued_stepdir t
    \<and> (\<not> motorRunning s \<longrightarrow> stepMotor_spi i s = s)
    \<and> (\<not> motorRunning t \<longrightarrow> stepMotor_stepdir i t = t)"
proof -
  note a = stop_pass_spi [OF assms(1), of p s]
  note b = stop_pass_stepdir [OF assms(1), of p t]
  from a have c: "\<not> motorRunning (run_spi p (i0 # is) s) \<and>
      stepsIssued_spi (run_spi p (i0 # is) s) = stepsIssued_spi s"
    using run_stays_stopped_spi [OF _ assms(2), of "loop_spi p i0 s" p] by simp
  from b have d: "\<not> motorRunning (run_stepdir p (i0 # is) t) \<and>
      stepsIssued_stepdir (run_stepdir p (i0 # is) t) = stepsIssued_stepdir t"
    using run_stays_stopped_stepdir [OF _ assms(2), of "loop_stepdir p i0 t" p] by simp
  from c d show ?thesis
    by (simp add: motorRunning_processCommand_spi motorRunning_processCommand_stepdir
        stepMotor_spi_def stepMotor_stepdir_def equals_def c_str_def)
qed

theorem stopped_until_start_witness:
  "motorRunning (loop_spi avr_board (line_at ''start'' 5000) globals_spi)
   \<and> stepsIssued_spi (loop_spi avr_board (line_at ''start'' 5000) globals_spi) = 1
   \<and> carries (line_at ''STOP'' 9000) [''stop'', ''x'']
   \<and> \<not> motorRunning (run_spi avr_board
        [line_at ''STOP'' 9000, idle_at 20000, line_at ''reverse'' 30000,
         line_at ''speed 500'' 40000, idle_at 50000]
        (loop_spi avr_board (line_at ''start'' 5000) globals_spi))
   \<and> stepsIssued_spi (run_spi avr_board
        [line_at ''STOP'' 9000, idle_at 20000, line_at ''reverse'' 30000,
         line_at ''speed 500'' 40000, idle_at 50000]
        (loop_spi avr_board (line_at ''start'' 5000) globals_spi)) = 1
   \<and> motorRunning (loop_stepdir avr_board (line_at ''start'' 5000) globals_stepdir)
   \<and> stepsIssued_stepdir (loop_stepdir avr_board (line_at ''start'' 5000) globals_stepdir) = 1
   \<and> \<not> motorRunning (run_stepdir avr_board
        [line_at ''STOP'' 9000, idle_at 20000, line_at ''reverse'' 30000,
         line_at ''speed 500'' 40000, idle_at 50000]
        (loop_stepdir avr_board (line_at ''start'' 5000) globals_stepdir))
   \<and> stepsIssued_stepdir (run_stepdir avr_board
        [line_at ''STOP'' 9000, idle_at 20000, line_at ''reverse'' 30000,
         line_at ''speed 500'' 40000, idle_at 50000]
        (loop_stepdir avr_board (line_at ''start'' 5000) globals_stepdir)) = 1"
proof -
  have c: "carries (line_at ''STOP'' 9000) [''stop'', ''x'']"
    by code_simp
  have r: "list_all (\<lambda>i. \<not> carries i [''start'', ''s''])
      [idle_at 20000, line_at ''reverse'' 30000, line_at ''speed 500'' 40000, idle_at 50000]"
    by code_simp
  have b: "motorRunning (loop_spi avr_board (line_at ''start'' 5000) globals_spi)"
    "stepsIssued_spi (loop_spi avr_board (line_at ''start'' 5000) globals_spi) = 1"
    "motorRunning (loop_stepdir avr_board (line_at ''start'' 5000) globals_stepdir)"
    "stepsIssued_stepdir (loop_stepdir avr_board (line_at ''start'' 5000) globals_stepdir) = 1"
    by code_simp+
  from stopped_until_start [OF c r, of avr_board 0
      "loop_spi avr_board (line_at ''start'' 5000) globals_spi"
      "loop_stepdir avr_board (line_at ''start'' 5000) globals_stepdir"] b c
  show ?thesis by simp
qed

text \<open>
  C6. The period is to be 2000 or the number \<open>n\<close> of the latest accepted \<open>speed n\<close>
  command. On a board with a 16-bit \<open>int\<close> the sketches break this: the line
  \<open>speed 65636\<close> is parsed as 65636, narrowed to 100 by \<open>int newSpeed\<close>, accepted, and
  the period after the pass is 100, in both sketches. On the 32-bit board the same
  line is rejected and the period stays 2000.
\<close>

theorem period_100_after_speed_65636:
  "toInt avr_board (substring ''speed 65636'' 6) = 65636
   \<and> newSpeed avr_board ''speed 65636'' = 100
   \<and> uint (stepPeriodUs (run_spi avr_board [line_at ''speed 65636'' 1000, idle_at 2000]
        globals_spi)) = 100
   \<and> uint (stepPeriodUs (run_stepdir avr_board [line_at ''speed 65636'' 1000, idle_at 2000]
        globals_stepdir)) = 100
   \<and> serialOut (run_spi avr_board [line_at ''speed 65636'' 1000, idle_at 2000] globals_spi) =
       [Print ''Speed set to '', PrintU16 100, Println '' us (lower = faster)'']
   \<and> uint (stepPeriodUs (run_spi arm_board [line_at ''speed 65636'' 1000, idle_at 2000]
        globals_spi)) = 2000"
  by code_simp

text \<open>
  C7. Nothing is kept from one run to the next: at start-up the globals of both
  sketches hold \<open>motorRunning = false\<close>, direction forward (0, \<open>false\<close>),
  \<open>stepPeriodUs = 2000\<close> and \<open>lastStepTime = 0\<close>; \<open>setup\<close> changes none of them, so they
  are the control state when \<open>setup\<close> returns; and \<open>setup\<close> does return once the serial
  port is ready.
\<close>

theorem startup_state:
  "motorRunning globals_spi = False \<and> motorDirection globals_spi = 0 \<and>
   stepPeriodUs globals_spi = 2000 \<and> lastStepTime globals_spi = 0 \<and>
   motorRunning globals_stepdir = False \<and> motorDirection globals_stepdir = False \<and>
   stepPeriodUs globals_stepdir = 2000 \<and> lastStepTime globals_stepdir = 0 \<and>
   (setup_spi ready f globals_spi = Some s \<longrightarrow>
      motorRunning s = False \<and> motorDirection s = 0 \<and> stepPeriodUs s = 2000 \<and>
      lastStepTime s = 0) \<and>
   (setup_stepdir ready globals_stepdir = Some t \<longrightarrow>
      motorRunning t = False \<and> motorDirection t = False \<and> stepPeriodUs t = 2000 \<and>
      lastStepTime t = 0) \<and>
   (ready n \<longrightarrow> setup_spi ready f globals_spi \<noteq> None \<and>
      setup_stepdir ready globals_stepdir \<noteq> None)"
proof -
  have g: "motorRunning globals_spi = False \<and> motorDirection globals_spi = 0 \<and>
      stepPeriodUs globals_spi = 2000 \<and> lastStepTime globals_spi = 0"
    by (simp add: globals_spi_def)
  have h: "motorRunning globals_stepdir = False \<and> motorDirection globals_stepdir = False \<and>
      stepPeriodUs globals_stepdir = 2000 \<and> lastStepTime globals_stepdir = 0"
    by (simp add: globals_stepdir_def)
  show ?thesis
    using g h setup_spi_returns [of ready n f globals_spi]
      setup_stepdir_returns [of ready n globals_stepdir]
    by (auto simp add: setup_spi_fields setup_stepdir_fields)
qed

theorem startup_state_witness:
  "setup_spi (\<lambda>k. 2 \<le> k) 0 globals_spi \<noteq> None
   \<and> setup_stepdir (\<lambda>k. 2 \<le> k) globals_stepdir \<noteq> None
   \<and> motorRunning (the (setup_spi (\<lambda>k. 2 \<le> k) 0 globals_spi)) = False
   \<and> motorDirection (the (setup_spi (\<lambda>k. 2 \<le> k) 0 globals_spi)) = 0
   \<and> stepPeriodUs (the (setup_spi (\<lambda>k. 2 \<le> k) 0 globals_spi)) = 2000
   \<and> lastStepTime (the (setup_spi (\<lambda>k. 2 \<le> k) 0 globals_spi)) = 0
   \<and> motorRunning (the (setup_stepdir (\<lambda>k. 2 \<le> k) globals_stepdir)) = False
   \<and> motorDirection (the (setup_stepdir (\<lambda>k. 2 \<le> k) globals_stepdir)) = False
   \<and> stepPeriodUs (the (setup_stepdir (\<lambda>k. 2 \<le> k) globals_stepdir)) = 2000
   \<and> lastStepTime (the (setup_stepdir (\<lambda>k. 2 \<le> k) globals_stepdir)) = 0"
  using startup_state [of "\<lambda>k. 2 \<le> k" 0 "the (setup_spi (\<lambda>k. 2 \<le> k) 0 globals_spi)"
      "the (setup_stepdir (\<lambda>k. 2 \<le> k) globals_stepdir)" 2]
  by auto

text \<open>
  C8. A speed command is to be accepted exactly when its number is between 100 and
  50000, as the help text and the error message of both sketches say. On a board
  with a 16-bit \<open>int\<close> the sketches break this: \<open>speed 40000\<close> is parsed as 40000,
  narrowed to -25536 by \<open>int newSpeed\<close> and rejected with the error message, the
  period unchanged; \<open>speed 65636\<close>, out of range, is narrowed to 100 and accepted. On
  the 32-bit board 40000 is accepted and 65636 rejected.
\<close>

theorem speed_40000_rejected_on_16_bit_int:
  "int_bits avr_board = 16
   \<and> toInt avr_board (substring ''speed 40000'' 6) = 40000
   \<and> newSpeed avr_board ''speed 40000'' = - 25536
   \<and> processCommand_spi avr_board 0 ''speed 40000'' globals_spi =
       println ''ERROR: Speed must be between 100 and 50000'' globals_spi
   \<and> processCommand_stepdir avr_board ''speed 40000'' globals_stepdir =
       println ''ERROR: Speed must be between 100 and 50000'' globals_stepdir
   \<and> stepPeriodUs (processCommand_spi avr_board 0 ''speed 40000'' globals_spi) = 2000
   \<and> toInt avr_board (substring ''speed 65636'' 6) = 65636
   \<and> stepPeriodUs (processCommand_spi avr_board 0 ''speed 65636'' globals_spi) = 100
   \<and> stepPeriodUs (processCommand_stepdir avr_board ''speed 65636'' globals_stepdir) = 100
   \<and> stepPeriodUs (processCommand_spi arm_board 0 ''speed 40000'' globals_spi) = 40000
   \<and> stepPeriodUs (processCommand_spi arm_board 0 ''speed 65636'' globals_spi) = 2000"
  by code_simp

text \<open>
  C9. What a pass of \<open>loop\<close> does with a line depends only on the line trimmed and
  lowercased, which is what \<open>processCommand\<close> receives, and of that only on what the
  code reads of it as a C string: two lines with the same trimmed lowercase form, two
  lines that differ only in the case of their letters, and a line and the same line
  with white space around it, all lead to the same state, in both sketches.
\<close>

theorem line_normalised:
  assumes "toLowerCase (trim l1) = toLowerCase (trim l2)
      \<or> toLowerCase l1 = toLowerCase l2
      \<or> (\<exists>a b. l1 = a @ l2 @ b \<and> list_all isspace a \<and> list_all isspace b)
      \<or> map tolower l1 = map tolower l2
      \<or> map tolower (trim l1) = map tolower (trim l2)
      \<or> c_str (toLowerCase (trim l1)) = c_str (toLowerCase (trim l2))"
  shows "loop_spi p (i\<lparr>serialLine := Some l1\<rparr>) s = loop_spi p (i\<lparr>serialLine := Some l2\<rparr>) s
    \<and> loop_stepdir p (i\<lparr>serialLine := Some l1\<rparr>) t =
        loop_stepdir p (i\<lparr>serialLine := Some l2\<rparr>) t
    \<and> loop_spi p (i\<lparr>serialLine := Some l1\<rparr>) s =
        stepMotor_spi i (processCommand_spi p (faultReg i) (toLowerCase (trim l1)) s)
    \<and> loop_stepdir p (i\<lparr>serialLine := Some l1\<rparr>) t =
        stepMotor_stepdir i (processCommand_stepdir p (toLowerCase (trim l1)) t)"
proof -
  from assms consider
      (a) "toLowerCase (trim l1) = toLowerCase (trim l2)"
    | (b) "toLowerCase l1 = toLowerCase l2"
    | (c) a b where "l1 = a @ l2 @ b" "list_all isspace a" "list_all isspace b"
    | (d) "map tolower l1 = map tolower l2"
    | (f) "map tolower (trim l1) = map tolower (trim l2)"
    | (e) "c_str (toLowerCase (trim l1)) = c_str (toLowerCase (trim l2))"
    by blast
  then have "c_str (toLowerCase (trim l1)) = c_str (toLowerCase (trim l2))"
  proof cases
    case a
    then show ?thesis by simp
  next
    case b
    then have "toLowerCase (trim l1) = toLowerCase (trim l2)"
      by (rule normalise_case)
    then show ?thesis by simp
  next
    case c
    then have "toLowerCase (trim l1) = toLowerCase (trim l2)"
      by (simp only: normalise_surrounded)
    then show ?thesis by simp
  next
    case d
    then show ?thesis by (rule normalise_letters)
  next
    case f
    then show ?thesis by (simp only: c_str_toLowerCase c_str_map_tolower [symmetric])
  next
    case e
    then show ?thesis .
  qed
  then have "loop_spi p (i\<lparr>serialLine := Some l1\<rparr>) s = loop_spi p (i\<lparr>serialLine := Some l2\<rparr>) s"
    and "loop_stepdir p (i\<lparr>serialLine := Some l1\<rparr>) t =
        loop_stepdir p (i\<lparr>serialLine := Some l2\<rparr>) t"
    by (rule loop_spi_c_str, rule loop_stepdir_c_str)
  then show ?thesis
    by (simp add: loop_spi_line loop_stepdir_line)
qed

theorem line_normalised_witness:
  "toLowerCase (trim '' START '') = ''start''
   \<and> toLowerCase ''START'' = toLowerCase ''start''
   \<and> loop_spi avr_board (line_at '' START '' 5000) globals_spi =
       loop_spi avr_board (line_at ''start'' 5000) globals_spi
   \<and> loop_spi avr_board (line_at ''START'' 5000) globals_spi =
       loop_spi avr_board (line_at ''start'' 5000) globals_spi
   \<and> loop_stepdir avr_board (line_at '' START '' 5000) globals_stepdir =
       loop_stepdir avr_board (line_at ''start'' 5000) globals_stepdir
   \<and> loop_stepdir avr_board (line_at ''START'' 5000) globals_stepdir =
       loop_stepdir avr_board (line_at ''start'' 5000) globals_stepdir
   \<and> motorRunning (loop_spi avr_board (line_at ''start'' 5000) globals_spi)"
proof -
  have n: "toLowerCase (trim '' START '') = ''start''" "toLowerCase (trim ''start'') = ''start''"
    "toLowerCase ''START'' = toLowerCase ''start''"
    by code_simp+
  have i: "line_at l 5000 = (idle_at 5000)\<lparr>serialLine := Some l\<rparr>" for l
    by (simp add: line_at_def idle_at_def)
  have m: "motorRunning (loop_spi avr_board (line_at ''start'' 5000) globals_spi)"
    by code_simp
  from n have h1: "toLowerCase (trim '' START '') = toLowerCase (trim ''start'')
      \<or> toLowerCase '' START '' = toLowerCase ''start''
      \<or> (\<exists>a b. '' START '' = a @ ''start'' @ b \<and> list_all isspace a \<and> list_all isspace b)
      \<or> map tolower '' START '' = map tolower ''start''
      \<or> map tolower (trim '' START '') = map tolower (trim ''start'')
      \<or> c_str (toLowerCase (trim '' START '')) = c_str (toLowerCase (trim ''start''))"
    by simp
  from n have h2: "toLowerCase (trim ''START'') = toLowerCase (trim ''start'')
      \<or> toLowerCase ''START'' = toLowerCase ''start''
      \<or> (\<exists>a b. ''START'' = a @ ''start'' @ b \<and> list_all isspace a \<and> list_all isspace b)
      \<or> map tolower ''START'' = map tolower ''start''
      \<or> map tolower (trim ''START'') = map tolower (trim ''start'')
      \<or> c_str (toLowerCase (trim ''START'')) = c_str (toLowerCase (trim ''start''))"
    by simp
  note a = line_normalised [OF h1, of avr_board "idle_at 5000" globals_spi globals_stepdir]
  note b = line_normalised [OF h2, of avr_board "idle_at 5000" globals_spi globals_stepdir]
  from a b n m show ?thesis unfolding i by blast
qed

text \<open>
  C10. In the STEP/DIR sketch, \<open>enable\<close> writes \<open>HIGH\<close> to the ENABLE pin and leaves
  \<open>motorRunning\<close>, \<open>motorDirection\<close> and \<open>stepPeriodUs\<close> as they are: it does not restart
  the motor. \<open>disable\<close> writes \<open>LOW\<close> to the pin and sets \<open>motorRunning\<close> to false.
  \<open>HIGH\<close> is the level \<open>setup\<close> leaves the pin at, the level at which the sketch
  expects \<open>start\<close> to move the motor; the hardware notes of the sketch wire the pin to
  the driver's nSLEEP input, which is awake when high.
\<close>

theorem enable_disable_stepdir:
  "processCommand_stepdir p ''enable'' s =
     s\<lparr>serialOut := serialOut s @ [Println ''Driver ENABLED''],
       hwLog := hwLog s @ [DigitalWrite ENABLE_PIN HIGH]\<rparr>
   \<and> processCommand_stepdir p ''disable'' s =
     s\<lparr>motorRunning := False,
       serialOut := serialOut s @ [Println ''Driver DISABLED''],
       hwLog := hwLog s @ [DigitalWrite ENABLE_PIN LOW]\<rparr>
   \<and> lastWrite ENABLE_PIN (hwLog (processCommand_stepdir p ''enable'' s)) = Some HIGH
   \<and> motorRunning (processCommand_stepdir p ''enable'' s) = motorRunning s
   \<and> motorDirection (processCommand_stepdir p ''enable'' s) = motorDirection s
   \<and> stepPeriodUs (processCommand_stepdir p ''enable'' s) = stepPeriodUs s
   \<and> lastWrite ENABLE_PIN (hwLog (processCommand_stepdir p ''disable'' s)) = Some LOW
   \<and> motorRunning (processCommand_stepdir p ''disable'' s) = False
   \<and> motorDirection (processCommand_stepdir p ''disable'' s) = motorDirection s
   \<and> stepPeriodUs (processCommand_stepdir p ''disable'' s) = stepPeriodUs s
   \<and> HIGH \<noteq> LOW
   \<and> (setup_stepdir ready globals_stepdir = Some t \<longrightarrow>
        lastWrite ENABLE_PIN (hwLog t) = Some HIGH)"
proof -
  have e: "processCommand_stepdir p ''enable'' s =
     s\<lparr>serialOut := serialOut s @ [Println ''Driver ENABLED''],
       hwLog := hwLog s @ [DigitalWrite ENABLE_PIN HIGH]\<rparr>"
    by (simp add: processCommand_stepdir_def startsWith_def equals_def c_str_def digitalWrite_def
        hw_def println_def)
  have d: "processCommand_stepdir p ''disable'' s =
     s\<lparr>motorRunning := False,
       serialOut := serialOut s @ [Println ''Driver DISABLED''],
       hwLog := hwLog s @ [DigitalWrite ENABLE_PIN LOW]\<rparr>"
    by (simp add: processCommand_stepdir_def startsWith_def equals_def c_str_def digitalWrite_def
        hw_def println_def)
  have l: "HIGH \<noteq> LOW"
    by (simp add: HIGH_def LOW_def)
  have "lastWrite ENABLE_PIN (hwLog s @ [DigitalWrite ENABLE_PIN v]) = Some v" for v
    by (simp add: lastWrite_append)
  with e d l show ?thesis
    by (simp add: setup_stepdir_enable_pin)
qed

theorem enable_disable_stepdir_witness:
  "setup_stepdir (\<lambda>k. True) globals_stepdir \<noteq> None
   \<and> lastWrite ENABLE_PIN (hwLog (the (setup_stepdir (\<lambda>k. True) globals_stepdir))) = Some HIGH
   \<and> motorRunning (processCommand_stepdir avr_board ''start'' globals_stepdir)
   \<and> motorRunning (processCommand_stepdir avr_board ''enable''
        (processCommand_stepdir avr_board ''start'' globals_stepdir))
   \<and> \<not> motorRunning (processCommand_stepdir avr_board ''disable''
        (processCommand_stepdir avr_board ''start'' globals_stepdir))
   \<and> \<not> motorRunning (processCommand_stepdir avr_board ''enable''
        (processCommand_stepdir avr_board ''disable''
          (processCommand_stepdir avr_board ''start'' globals_stepdir)))"
proof -
  have r: "setup_stepdir (\<lambda>k. True) globals_stepdir \<noteq> None"
    by (rule setup_stepdir_returns [of "\<lambda>k. True" 0]) simp
  then have e: "setup_stepdir (\<lambda>k. True) globals_stepdir =
      Some (the (setup_stepdir (\<lambda>k. True) globals_stepdir))"
    by simp
  have m: "motorRunning (processCommand_stepdir avr_board ''start'' globals_stepdir)"
    by code_simp
  note a = enable_disable_stepdir [of avr_board
      "processCommand_stepdir avr_board ''start'' globals_stepdir" "\<lambda>k. True"
      "the (setup_stepdir (\<lambda>k. True) globals_stepdir)"]
  note b = enable_disable_stepdir [of avr_board
      "processCommand_stepdir avr_board ''disable''
        (processCommand_stepdir avr_board ''start'' globals_stepdir)" "\<lambda>k. True"
      "the (setup_stepdir (\<lambda>k. True) globals_stepdir)"]
  from a b r e m show ?thesis by simp
qed

end
